theory Spec2Isabelle
  imports Main "HOL-Library.Sublist" "HOL-Library.Multiset"
begin

section \<open>The OPC-UA connector of thingsboard-gateway\<close>

text \<open>
  A shallow embedding of \<^verbatim>\<open>thingsboard_gateway/connectors/opcua/opcua_connector.py\<close>.
  Coroutines are modelled as ordinary functions (one event loop runs them one after the
  other), the OPC-UA client library as a record of answer functions, Python exceptions as
  the left summand of a sum type, and every externally visible effect (a sleep, a log
  line, a call to the server, a reply to the gateway) as an entry of a trace.
\<close>

subsection \<open>Python exceptions\<close>

text \<open>
  The exception classes the connector names, with the class hierarchy the \<^verbatim>\<open>except\<close>
  clauses depend on: every \<^verbatim>\<open>Bad...\<close> status and \<^verbatim>\<open>UaStatusCodeErrors\<close> derive from
  \<^verbatim>\<open>UaStatusCodeError\<close>; \<^verbatim>\<open>CancelledError\<close> derives from \<^verbatim>\<open>BaseException\<close> only;
  everything else derives from \<^verbatim>\<open>Exception\<close>. \<open>UaStatusCodeError\<close> stands for any
  status code the connector does not name, \<open>OtherException\<close> for any other exception.
\<close>

datatype exn =
    AssertionError
  | IndexError
  | KeyError
  | ValueError
  | AttributeError
  | TypeError
  | ConnectionError
  | BadNodeIdUnknown
  | BadConnectionClosed
  | BadInvalidState
  | BadSessionClosed
  | BadAttributeIdInvalid
  | BadCommunicationError
  | BadOutOfService
  | BadNoMatch
  | BadUnexpectedError
  | UaStatusCodeErrors
  | BadWaitingForInitialData
  | UaStatusCodeError
  | OtherException string
  | CancelledError

fun is_Exception :: "exn \<Rightarrow> bool" where
  "is_Exception CancelledError = False"
| "is_Exception _ = True"

text \<open>
  The text \<^verbatim>\<open>str(e)\<close> of an exception: the message of an \<open>OtherException\<close>; for the
  others, whose messages the libraries choose, the name of the class stands for it.
\<close>

fun exn_str :: "exn \<Rightarrow> string" where
  "exn_str (OtherException msg) = msg"
| "exn_str AssertionError = ''AssertionError''"
| "exn_str IndexError = ''IndexError''"
| "exn_str KeyError = ''KeyError''"
| "exn_str ValueError = ''ValueError''"
| "exn_str AttributeError = ''AttributeError''"
| "exn_str TypeError = ''TypeError''"
| "exn_str ConnectionError = ''ConnectionError''"
| "exn_str BadNodeIdUnknown = ''BadNodeIdUnknown''"
| "exn_str BadConnectionClosed = ''BadConnectionClosed''"
| "exn_str BadInvalidState = ''BadInvalidState''"
| "exn_str BadSessionClosed = ''BadSessionClosed''"
| "exn_str BadAttributeIdInvalid = ''BadAttributeIdInvalid''"
| "exn_str BadCommunicationError = ''BadCommunicationError''"
| "exn_str BadOutOfService = ''BadOutOfService''"
| "exn_str BadNoMatch = ''BadNoMatch''"
| "exn_str BadUnexpectedError = ''BadUnexpectedError''"
| "exn_str UaStatusCodeErrors = ''UaStatusCodeErrors''"
| "exn_str BadWaitingForInitialData = ''BadWaitingForInitialData''"
| "exn_str UaStatusCodeError = ''UaStatusCodeError''"
| "exn_str CancelledError = ''CancelledError''"

subsection \<open>\<^verbatim>\<open>retry_with_backoff\<close>\<close>






subsection \<open>Python strings and slices\<close>

text \<open>
  \<^verbatim>\<open>str.split(sep)\<close> for a non-empty separator: the string is cut at every occurrence
  of \<open>sep\<close>, found from left to right. (Python raises \<^verbatim>\<open>ValueError\<close> for an empty
  separator; the connector only splits at constant, non-empty ones.)
\<close>

function py_split :: "string \<Rightarrow> string \<Rightarrow> string list" where
  "py_split sep [] = [[]]"
| "py_split sep (c # cs) =
     (if sep \<noteq> [] \<and> prefix sep (c # cs)
      then [] # py_split sep (drop (length sep) (c # cs))
      else (case py_split sep cs of
              w # ws \<Rightarrow> (c # w) # ws
            | [] \<Rightarrow> [[c]]))"
  by pat_completeness auto
termination
  by (relation "measure (\<lambda>(sep, s). length s)") auto

text \<open>\<^verbatim>\<open>sep.join(parts)\<close>.\<close>

fun py_join :: "string \<Rightarrow> string list \<Rightarrow> string" where
  "py_join sep [] = []"
| "py_join sep [p] = p"
| "py_join sep (p # q # ps) = p @ sep @ py_join sep (q # ps)"

text \<open>\<^verbatim>\<open>xs[:k]\<close> and \<^verbatim>\<open>xs[k:]\<close> for an integer \<open>k\<close>: a negative \<open>k\<close> counts from the end.\<close>

definition py_slice_to :: "'a list \<Rightarrow> int \<Rightarrow> 'a list" where
  "py_slice_to xs k =
     (if k < 0 then take (nat (int (length xs) + k)) xs else take (nat k) xs)"

definition py_slice_from :: "'a list \<Rightarrow> int \<Rightarrow> 'a list" where
  "py_slice_from xs k =
     (if k < 0 then drop (nat (int (length xs) + k)) xs else drop (nat k) xs)"

text \<open>\<^verbatim>\<open>str.lower()\<close> on ASCII letters, and \<^verbatim>\<open>str(n)\<close> for a non-negative integer.\<close>

definition lower_char :: "char \<Rightarrow> char" where
  "lower_char c =
     (case map_of (zip ''ABCDEFGHIJKLMNOPQRSTUVWXYZ'' ''abcdefghijklmnopqrstuvwxyz'') c of
        Some l \<Rightarrow> l
      | None \<Rightarrow> c)"

definition py_lower :: "string \<Rightarrow> string" where
  "py_lower s = map lower_char s"

definition digit_char :: "nat \<Rightarrow> char" where
  "digit_char d = ''0123456789'' ! d"

function py_str_nat :: "nat \<Rightarrow> string" where
  "py_str_nat n = (if n < 10 then [digit_char n] else py_str_nat (n div 10) @ [digit_char (n mod 10)])"
  by pat_completeness auto
termination
  by (relation "measure id") auto

declare py_str_nat.simps [simp del]

definition is_digit :: "char \<Rightarrow> bool" where
  "is_digit c = (c \<in> set ''0123456789'')"

definition is_alnum :: "char \<Rightarrow> bool" where
  "is_alnum c =
     (is_digit c \<or> c \<in> set ''abcdefghijklmnopqrstuvwxyz'' \<or>
      c \<in> set ''ABCDEFGHIJKLMNOPQRSTUVWXYZ'')"

subsection \<open>The fragment of Python's \<^verbatim>\<open>re\<close> the connector relies on\<close>

text \<open>
  The module \<^verbatim>\<open>re\<close> is Python's library; what follows models the part of it the
  connector calls, after the library's documentation. \<open>re_escape\<close> is \<^verbatim>\<open>re.escape\<close>: a backslash goes before each of the
  characters \<^verbatim>\<open>()[]{}?*+-|^$\.&~#\<close> and before white space. \<open>re_fullmatch\<close> is
  \<^verbatim>\<open>re.fullmatch\<close> on patterns built from literal characters, escaped characters,
  \<^verbatim>\<open>.\<close> (any character but a newline) and a \<^verbatim>\<open>*\<close> after one of these; on any other
  pattern it answers \<open>None\<close>.
\<close>

definition re_special :: "char \<Rightarrow> bool" where
  "re_special c = (c \<in> set ''()[]{}?*+-|^$.&~# '' \<or> c = CHR 0x5C \<or>
     c = CHR 0x09 \<or> c = CHR 0x0A \<or> c = CHR 0x0D \<or> c = CHR 0x0B \<or> c = CHR 0x0C)"

fun re_escape :: "string \<Rightarrow> string" where
  "re_escape [] = []"
| "re_escape (c # cs) = (if re_special c then CHR 0x5C # c # re_escape cs else c # re_escape cs)"

datatype re_atom = Lit char | AnyChar

definition re_meta :: "char \<Rightarrow> bool" where
  "re_meta c = (c \<in> set ''()[]{}?*+|^$'')"

definition starred :: "string \<Rightarrow> bool" where
  "starred cs = (case cs of [] \<Rightarrow> False | c # _ \<Rightarrow> c = CHR ''*'')"

definition after_star :: "string \<Rightarrow> string" where
  "after_star cs = (if starred cs then tl cs else cs)"

function re_parse :: "string \<Rightarrow> (re_atom \<times> bool) list option" where
  "re_parse [] = Some []"
| "re_parse (c # cs) =
     (if c = CHR 0x5C then
        (case cs of
           [] \<Rightarrow> None
         | e # cs' \<Rightarrow>
             if is_alnum e then None
             else map_option (Cons (Lit e, starred cs')) (re_parse (after_star cs')))
      else if re_meta c then None
      else map_option (Cons (if c = CHR ''.'' then AnyChar else Lit c, starred cs))
             (re_parse (after_star cs)))"
  by pat_completeness auto
termination
  by (relation "measure length") (auto simp: after_star_def)

fun atom_matches :: "re_atom \<Rightarrow> char \<Rightarrow> bool" where
  "atom_matches (Lit c) x = (x = c)"
| "atom_matches AnyChar x = (x \<noteq> CHR 0x0A)"

fun re_match :: "(re_atom \<times> bool) list \<Rightarrow> string \<Rightarrow> bool" where
  "re_match [] s = (s = [])"
| "re_match ((a, False) # r) [] = False"
| "re_match ((a, False) # r) (x # xs) = (atom_matches a x \<and> re_match r xs)"
| "re_match ((a, True) # r) [] = re_match r []"
| "re_match ((a, True) # r) (x # xs) =
     (re_match r (x # xs) \<or> (atom_matches a x \<and> re_match ((a, True) # r) xs))"

definition re_fullmatch :: "string \<Rightarrow> string \<Rightarrow> bool option" where
  "re_fullmatch pattern s = map_option (\<lambda>r. re_match r s) (re_parse pattern)"

subsection \<open>The OPC-UA client\<close>

text \<open>
  The client library (\<^verbatim>\<open>asyncua\<close>) and the server behind it are not part of the
  repository. A \<open>client\<close> holds the answer the server gives to each request the connector
  makes: a value, or the exception the call raises. A node is named by its NodeId
  string, so \<^verbatim>\<open>nodeid.to_string()\<close> is the node itself.
\<close>

type_synonym node = string
type_synonym handle = nat
type_synonym val = string

datatype path = PathStr string | PathList "string list"

record client =
  root :: node
  get_children :: "node \<Rightarrow> exn + node list"
  read_browse_name :: "node \<Rightarrow> exn + nat \<times> string"
  get_child :: "node \<Rightarrow> path \<Rightarrow> exn + node"
  get_node :: "string \<Rightarrow> exn + node"
  read_value :: "node \<Rightarrow> exn + val"
  write_value :: "node \<Rightarrow> val \<Rightarrow> exn + unit"
  read_attributes :: "node list \<Rightarrow> exn + val list"
  create_subscription :: "exn + nat"
  subscribe_data_change :: "node \<Rightarrow> exn + handle"
  unsubscribe :: "handle option \<Rightarrow> exn + unit"
  subscription_delete :: "exn + unit"
  namespace_index :: "node \<Rightarrow> nat"
  call_method :: "node \<Rightarrow> string \<Rightarrow> val list \<Rightarrow> exn + val"

subsection \<open>Resolving node patterns\<close>

text \<open>The separator \<^verbatim>\<open>'\\.'\<close>: a backslash and a dot.\<close>

definition escaped_dot :: string where
  "escaped_dot = [CHR 0x5C, CHR ''.'']"

text \<open>\<^verbatim>\<open>f'{child_node.NamespaceIndex}:{child_node.Name}'\<close>\<close>

definition qualified_name :: "nat \<Rightarrow> string \<Rightarrow> string" where
  "qualified_name ns name = py_str_nat ns @ '':'' @ name"

text \<open>
  The test of \<^verbatim>\<open>__find_nodes\<close> on a child:
  \<^verbatim>\<open>re.fullmatch(re.escape(node_list[0]), child_node.Name)
     or node_list[0].split(':')[-1] == child_node.Name\<close>.
  A pattern \<^verbatim>\<open>re\<close> refuses raises \<^verbatim>\<open>re.error\<close>.
\<close>

definition child_matches :: "string \<Rightarrow> string \<Rightarrow> exn + bool" where
  "child_matches segment name =
     (case re_fullmatch (re_escape segment) name of
        None \<Rightarrow> Inl (OtherException ''re.error'')
      | Some m \<Rightarrow> Inr (m \<or> last (py_split '':'' segment) = name))"

text \<open>
  \<^verbatim>\<open>
  async def __find_nodes(self, node_list, current_parent_node, nodes):
      assert len(node_list) > 0
      final = []
      children = await current_parent_node.get_children()
      for node in children:
          child_node = await node.read_browse_name()
          if re.fullmatch(re.escape(node_list[0]), child_node.Name) or node_list[0].split(':')[-1] == child_node.Name:
              new_nodes = [*nodes, f'{child_node.NamespaceIndex}:{child_node.Name}']
              if len(node_list) == 1:
                  final.append(new_nodes)
              else:
                  final.extend(await self.__find_nodes(node_list[1:], current_parent_node=node, nodes=new_nodes))
      return final
  \<close>
  \<open>priv_find_nodes\<close> is \<^verbatim>\<open>__find_nodes\<close> (a name cannot start with an underscore here);
  \<open>find_nodes_children\<close> is its \<^verbatim>\<open>for\<close> loop over the children still to visit,
  returning what the loop adds to \<^verbatim>\<open>final\<close>.
\<close>

fun priv_find_nodes :: "client \<Rightarrow> string list \<Rightarrow> node \<Rightarrow> string list \<Rightarrow> exn + string list list"
  and find_nodes_children ::
    "client \<Rightarrow> string \<Rightarrow> string list \<Rightarrow> string list \<Rightarrow> node list \<Rightarrow> exn + string list list"
where
  "priv_find_nodes cl [] current_parent_node nodes = Inl AssertionError"
| "priv_find_nodes cl (segment # rest) current_parent_node nodes =
     (case get_children cl current_parent_node of
        Inl e \<Rightarrow> Inl e
      | Inr children \<Rightarrow> find_nodes_children cl segment rest nodes children)"
| "find_nodes_children cl segment rest nodes [] = Inr []"
| "find_nodes_children cl segment rest nodes (node # others) =
     (case read_browse_name cl node of
        Inl e \<Rightarrow> Inl e
      | Inr (ns, name) \<Rightarrow>
          (case child_matches segment name of
             Inl e \<Rightarrow> Inl e
           | Inr False \<Rightarrow> find_nodes_children cl segment rest nodes others
           | Inr True \<Rightarrow>
               (let new_nodes = nodes @ [qualified_name ns name] in
                case (if rest = [] then Inr [new_nodes]
                      else priv_find_nodes cl rest node new_nodes) of
                  Inl e \<Rightarrow> Inl e
                | Inr found \<Rightarrow>
                    (case find_nodes_children cl segment rest nodes others of
                       Inl e \<Rightarrow> Inl e
                     | Inr final \<Rightarrow> Inr (found @ final)))))"

text \<open>
  \<^verbatim>\<open>
  async def find_nodes(self, node_pattern, current_parent_node=None, nodes=[]):
      node_list = node_pattern.split('\\.')
      if current_parent_node is None:
          current_parent_node = self.__client.nodes.root
          if len(node_list) > 0 and node_list[0].lower() == 'root':
              node_list = node_list[1:]
      return await self.__find_nodes(node_list, current_parent_node, nodes)
  \<close>
\<close>

definition find_nodes ::
  "client \<Rightarrow> string \<Rightarrow> node option \<Rightarrow> string list \<Rightarrow> exn + string list list"
where
  "find_nodes cl node_pattern current_parent_node nodes =
     (let node_list = py_split escaped_dot node_pattern in
      case current_parent_node of
        None \<Rightarrow>
          priv_find_nodes cl
            (if length node_list > 0 \<and> py_lower (hd node_list) = ''root''
             then tl node_list else node_list)
            (root cl) nodes
      | Some parent \<Rightarrow> priv_find_nodes cl node_list parent nodes)"

text \<open>
  \<^verbatim>\<open>
  async def find_node_name_space_index(self, path):
      if isinstance(path, str):
          path = path.split('\\.')
      # find unresolved nodes
      u_node_count = len(tuple(filter(lambda u_node: len(u_node.split(':')) < 2, path)))
      resolved = path[:-u_node_count]
      resolved_level = len(path) - u_node_count
      parent_node = await self.__client.nodes.root.get_child(resolved)
      unresolved = path[resolved_level:]
      return await self.__find_nodes(unresolved, current_parent_node=parent_node, nodes=resolved)
  \<close>
\<close>

definition path_segments :: "path \<Rightarrow> string list" where
  "path_segments p = (case p of PathStr s \<Rightarrow> py_split escaped_dot s | PathList l \<Rightarrow> l)"

definition u_node_count :: "string list \<Rightarrow> nat" where
  "u_node_count p = length (filter (\<lambda>u_node. length (py_split '':'' u_node) < 2) p)"

definition resolved :: "string list \<Rightarrow> string list" where
  "resolved p = py_slice_to p (- int (u_node_count p))"

definition unresolved :: "string list \<Rightarrow> string list" where
  "unresolved p = py_slice_from p (int (length p) - int (u_node_count p))"

definition find_node_name_space_index :: "client \<Rightarrow> path \<Rightarrow> exn + string list list" where
  "find_node_name_space_index cl p =
     (let segments = path_segments p in
      case get_child cl (root cl) (PathList (resolved segments)) of
        Inl e \<Rightarrow> Inl e
      | Inr parent_node \<Rightarrow>
          priv_find_nodes cl (unresolved segments) parent_node (resolved segments))"

subsection \<open>Devices, node bindings and the connector's state\<close>

datatype value_section = Attributes | Timeseries

text \<open>
  A node binding is the dictionary \<^verbatim>\<open>node\<close> of \<^verbatim>\<open>device.values[section]\<close>: the keys
  \<^verbatim>\<open>'path'\<close> and \<^verbatim>\<open>'key'\<close> are always there, the others are written by the connector. A
  missing \<^verbatim>\<open>'valid'\<close>, \<^verbatim>\<open>'qualified_path'\<close>, \<^verbatim>\<open>'subscription'\<close> or \<^verbatim>\<open>'id'\<close> is \<open>None\<close>;
  \<^verbatim>\<open>'sub_on'\<close> is only read as \<^verbatim>\<open>node.get('sub_on', False)\<close>, so a missing one is
  \<open>False\<close>.
\<close>

record binding =
  node_path :: path
  node_key :: string
  node_qualified_path :: "string list option"
  node_valid :: "bool option"
  node_sub_on :: bool
  node_subscription :: "handle option"
  node_id :: "string option"

text \<open>A mapping template of the configuration, and the configuration of a device made from it.\<close>

datatype info = InfoFirst string | InfoAll "string list"

record mapping =
  deviceNodePattern :: string
  deviceNameExpression :: "string option"
  deviceProfileExpression :: "string option"
  converter_name :: "string option"
  attributes :: "(string \<times> path) list"
  timeseries :: "(string \<times> path) list"
  attributes_updates :: "(string \<times> string) list"
  rpc_methods :: "(string \<times> val list) list"

record device_config = mapping +
  device_name :: string
  device_type :: info

type_synonym bound_node = "node \<times> string \<times> value_section"
type_synonym data = string
type_synonym converter = "bound_node list \<Rightarrow> val list \<Rightarrow> exn + data option"

text \<open>
  Modelled from the spec: class \<^verbatim>\<open>Device\<close> (\<^verbatim>\<open>connectors/opcua/device.py\<close>) is not among
  the source files. A device has a name, the qualified path of its root node, the
  configuration it was made from, its node bindings by section (\<^verbatim>\<open>device.values\<close>), the
  nodes bound by the last scan (\<^verbatim>\<open>device.nodes\<close>), a poll-path converter and, when
  subscriptions are enabled, a push-path converter. A new device has one fresh binding for
  each key of its template, with a path given as segments taken relative to the device's
  root path, and no bound node.
\<close>

record device =
  dev_path :: "string list"
  dev_name :: string
  dev_config :: device_config
  dev_values :: "value_section \<Rightarrow> binding list"
  dev_nodes :: "bound_node list"
  dev_converter :: converter
  dev_converter_for_sub :: "converter option"

definition new_binding :: "string list \<Rightarrow> string \<times> path \<Rightarrow> binding" where
  "new_binding device_path kp =
     \<lparr>node_path = (case snd kp of PathStr s \<Rightarrow> PathStr s | PathList l \<Rightarrow> PathList (device_path @ l)),
      node_key = fst kp, node_qualified_path = None, node_valid = None, node_sub_on = False,
      node_subscription = None, node_id = None\<rparr>"

definition Device ::
  "string list \<Rightarrow> string \<Rightarrow> device_config \<Rightarrow> converter \<Rightarrow> converter option \<Rightarrow> device"
where
  "Device p name cfg conv conv_for_sub =
     \<lparr>dev_path = p, dev_name = name, dev_config = cfg,
      dev_values = (\<lambda>sec. map (new_binding p)
                      (case sec of Attributes \<Rightarrow> attributes cfg | Timeseries \<Rightarrow> timeseries cfg)),
      dev_nodes = [], dev_converter = conv, dev_converter_for_sub = conv_for_sub\<rparr>"

text \<open>What the connector does that can be seen from outside, in the order it does it.\<close>

datatype reply_value = ReplyText string | ReplyResult "(string \<times> string) list" | ReplyCode nat

datatype event =
    LogMsg string
  | Unsubscribe "handle option"
  | SubscriptionDelete
  | CreateSubscription
  | SubscribeDataChange node
  | ReadAttributes "node list"
  | Convert string "bound_node list" "val list"
  | Put data
  | ReadValue node
  | WriteValue node val
  | CallMethod node string "val list"
  | SendRpcReply string "nat option" "(string \<times> reply_value) list"

text \<open>
  The fields of \<^verbatim>\<open>OpcUaConnector\<close> the modelled methods read or write, and the trace of
  events so far. \<open>import_module\<close> is \<^verbatim>\<open>TBModuleLoader.import_module\<close> for this connector's
  type: the converter class of that name, if there is one; a converter class makes a
  converter from a device's configuration.
\<close>

record connector =
  device_nodes :: "device list"
  subscription :: "nat option"
  enable_subscriptions :: bool
  stopped :: bool
  connector_type :: string
  config_mapping :: "mapping list"
  import_module :: "string \<Rightarrow> (device_config \<Rightarrow> converter) option"
  trace :: "event list"

definition emit :: "event \<Rightarrow> connector \<Rightarrow> connector" where
  "emit ev st = st\<lparr>trace := trace st @ [ev]\<rparr>"

subsection \<open>Resetting node bindings\<close>

text \<open>
  \<^verbatim>\<open>
  async def __reset_node(self, node):
      node['valid'] = False
      if node.get('sub_on', False):
          try:
              if self.__subscription:
                  await self.__subscription.unsubscribe(node['subscription'])
          except Exception as e:
              self.__log.exception('Error unsubscribing on data change: %s', e)
          node['subscription'] = None
          node['sub_on'] = False
  \<close>
  The result is what the call raises, if anything, with the binding and the connector as
  the call leaves them.
\<close>

definition reset_node ::
  "client \<Rightarrow> binding \<Rightarrow> connector \<Rightarrow> (exn + unit) \<times> binding \<times> connector"
where
  "reset_node cl node st =
     (let node1 = node\<lparr>node_valid := Some False\<rparr>;
          cleared = node1\<lparr>node_subscription := None, node_sub_on := False\<rparr>
      in
      if node_sub_on node1 then
        (if subscription st \<noteq> None then
           (case unsubscribe cl (node_subscription node1) of
              Inr _ \<Rightarrow> (Inr (), cleared, emit (Unsubscribe (node_subscription node1)) st)
            | Inl e \<Rightarrow>
                if is_Exception e then
                  (Inr (), cleared,
                   emit (LogMsg ''Error unsubscribing on data change'')
                     (emit (Unsubscribe (node_subscription node1)) st))
                else (Inl e, node1, emit (Unsubscribe (node_subscription node1)) st))
         else (Inr (), cleared, st))
      else (Inr (), node1, st))"

text \<open>
  \<^verbatim>\<open>
  async def __reset_nodes(self, device_name=None):
      for device in self.__device_nodes:
          if device_name is None or device.name == device_name:
              for section in ('attributes', 'timeseries'):
                  for node in device.values.get(section, []):
                      await self.__reset_node(node)

      if device_name is None and self.__subscription:
          try:
              await self.__subscription.delete()
          except Exception as e:
              self.__log.exception('Error deleting subscription: %s', e)
          self.__subscription = None
  \<close>
  The three loops, innermost first. Each returns the list it walked with the bindings
  as the loop left them, also when a call raised half-way.
\<close>

fun reset_section ::
  "client \<Rightarrow> binding list \<Rightarrow> connector \<Rightarrow> (exn + unit) \<times> binding list \<times> connector"
where
  "reset_section cl [] st = (Inr (), [], st)"
| "reset_section cl (node # rest) st =
     (case reset_node cl node st of
        (Inl e, node', st') \<Rightarrow> (Inl e, node' # rest, st')
      | (Inr _, node', st') \<Rightarrow>
          (case reset_section cl rest st' of
             (r, rest', st'') \<Rightarrow> (r, node' # rest', st'')))"

definition reset_device ::
  "client \<Rightarrow> device \<Rightarrow> connector \<Rightarrow> (exn + unit) \<times> device \<times> connector"
where
  "reset_device cl dev st =
     (case reset_section cl (dev_values dev Attributes) st of
        (Inl e, attrs, st') \<Rightarrow>
          (Inl e, dev\<lparr>dev_values := (dev_values dev)(Attributes := attrs)\<rparr>, st')
      | (Inr _, attrs, st') \<Rightarrow>
          (case reset_section cl (dev_values dev Timeseries) st' of
             (r, ts, st'') \<Rightarrow>
               (r, dev\<lparr>dev_values := (dev_values dev)(Attributes := attrs, Timeseries := ts)\<rparr>,
                st'')))"

fun reset_devices ::
  "client \<Rightarrow> string option \<Rightarrow> device list \<Rightarrow> connector \<Rightarrow> (exn + unit) \<times> device list \<times> connector"
where
  "reset_devices cl name [] st = (Inr (), [], st)"
| "reset_devices cl name (dev # rest) st =
     (if name = None \<or> Some (dev_name dev) = name then
        (case reset_device cl dev st of
           (Inl e, dev', st') \<Rightarrow> (Inl e, dev' # rest, st')
         | (Inr _, dev', st') \<Rightarrow>
             (case reset_devices cl name rest st' of
                (r, rest', st'') \<Rightarrow> (r, dev' # rest', st'')))
      else
        (case reset_devices cl name rest st of
           (r, rest', st') \<Rightarrow> (r, dev # rest', st')))"

definition reset_nodes :: "client \<Rightarrow> string option \<Rightarrow> connector \<Rightarrow> (exn + unit) \<times> connector" where
  "reset_nodes cl name st =
     (case reset_devices cl name (device_nodes st) st of
        (Inl e, devs, st') \<Rightarrow> (Inl e, st'\<lparr>device_nodes := devs\<rparr>)
      | (Inr _, devs, st') \<Rightarrow>
          (let st1 = st'\<lparr>device_nodes := devs\<rparr> in
           if name = None \<and> subscription st1 \<noteq> None then
             (case subscription_delete cl of
                Inr _ \<Rightarrow> (Inr (), (emit SubscriptionDelete st1)\<lparr>subscription := None\<rparr>)
              | Inl e \<Rightarrow>
                  if is_Exception e then
                    (Inr (), (emit (LogMsg ''Error deleting subscription'')
                               (emit SubscriptionDelete st1))\<lparr>subscription := None\<rparr>)
                  else (Inl e, emit SubscriptionDelete st1))
           else (Inr (), st1)))"

subsection \<open>Binding the nodes of the devices\<close>

text \<open>
  \<^verbatim>\<open>re.match(r"(ns=\d+;[isgb]=[^}]+)", path)\<close>: the string starts with \<^verbatim>\<open>ns=\<close>, one or
  more digits, \<^verbatim>\<open>;\<close>, one of \<^verbatim>\<open>i s g b\<close>, \<^verbatim>\<open>=\<close> and a character that is not \<^verbatim>\<open>}\<close>.
\<close>

definition is_node_id :: "string \<Rightarrow> bool" where
  "is_node_id s =
     (prefix ''ns='' s \<and>
      (let r = drop 3 s; ds = takeWhile is_digit r in
       ds \<noteq> [] \<and>
       (case dropWhile is_digit r of
          a # b # c # d # _ \<Rightarrow> a = CHR '';'' \<and> b \<in> set ''isgb'' \<and> c = CHR ''='' \<and> d \<noteq> CHR ''}''
        | _ \<Rightarrow> False)))"

text \<open>\<^verbatim>\<open>path[-1]\<close>: the last character of a string, the last segment of a list.\<close>

definition path_last :: "path \<Rightarrow> exn + string" where
  "path_last p =
     (case p of
        PathStr s \<Rightarrow> if s = [] then Inl IndexError else Inr [last s]
      | PathList l \<Rightarrow> if l = [] then Inl IndexError else Inr (last l))"

text \<open>
  The first half of the \<^verbatim>\<open>try\<close> block of \<^verbatim>\<open>_load_devices_nodes\<close>, up to \<^verbatim>\<open>found_node\<close>:
  \<^verbatim>\<open>
  path = node.get('qualified_path', node['path'])
  if isinstance(path, str) and re.match(r"(ns=\d+;[isgb]=[^}]+)", path):
      found_node = self.__client.get_node(path)
  else:
      if len(path[-1].split(':')) != 2:
          qualified_path = await self.find_node_name_space_index(path)
          if len(qualified_path) == 0:
              if node.get('valid', True):
                  self.__log.warning('Node not found; device: %s, key: %s, path: %s', ...)
                  await self.__reset_node(node)
              continue
          elif len(qualified_path) > 1:
              self.__log.warning('Multiple matching nodes found; ...', ...)
          node['qualified_path'] = qualified_path[0]
          path = qualified_path[0]
      found_node = await self.__client.nodes.root.get_child(path)
  \<close>
  The value is the node found, or \<open>None\<close> for \<^verbatim>\<open>continue\<close>.
\<close>

definition resolve_binding ::
  "client \<Rightarrow> binding \<Rightarrow> connector \<Rightarrow> (exn + node option) \<times> binding \<times> connector"
where
  "resolve_binding cl node st =
     (let p = (case node_qualified_path node of Some q \<Rightarrow> PathList q | None \<Rightarrow> node_path node) in
      if (case p of PathStr s \<Rightarrow> is_node_id s | PathList _ \<Rightarrow> False) then
        (case get_node cl (case p of PathStr s \<Rightarrow> s | PathList _ \<Rightarrow> []) of
           Inl e \<Rightarrow> (Inl e, node, st)
         | Inr found_node \<Rightarrow> (Inr (Some found_node), node, st))
      else
        (case path_last p of
           Inl e \<Rightarrow> (Inl e, node, st)
         | Inr l \<Rightarrow>
             if length (py_split '':'' l) \<noteq> 2 then
               (case find_node_name_space_index cl p of
                  Inl e \<Rightarrow> (Inl e, node, st)
                | Inr qualified_path \<Rightarrow>
                    if length qualified_path = 0 then
                      (if node_valid node \<noteq> Some False then
                         (case reset_node cl node (emit (LogMsg ''Node not found'') st) of
                            (Inl e, node', st') \<Rightarrow> (Inl e, node', st')
                          | (Inr _, node', st') \<Rightarrow> (Inr None, node', st'))
                       else (Inr None, node, st))
                    else
                      (let st1 = (if length qualified_path > 1
                                  then emit (LogMsg ''Multiple matching nodes found'') st else st);
                           node1 = node\<lparr>node_qualified_path := Some (hd qualified_path)\<rparr>
                       in
                       case get_child cl (root cl) (PathList (hd qualified_path)) of
                         Inl e \<Rightarrow> (Inl e, node1, st1)
                       | Inr found_node \<Rightarrow> (Inr (Some found_node), node1, st1)))
             else
               (case get_child cl (root cl) p of
                  Inl e \<Rightarrow> (Inl e, node, st)
                | Inr found_node \<Rightarrow> (Inr (Some found_node), node, st))))"

text \<open>
  The second half, after \<^verbatim>\<open>device.nodes.append(...)\<close>:
  \<^verbatim>\<open>
  if node.get('valid') is None or (node.get('valid') and not self.__enable_subscriptions):
      if self.__enable_subscriptions and not node.get('sub_on', False) and not self.__stopped:
          if self.__subscription is None:
              self.__subscription = await self.__client.create_subscription(1, SubHandler(...))
          handle = await self.__subscription.subscribe_data_change(found_node)
          node['subscription'] = handle
          node['sub_on'] = True
          node['id'] = found_node.nodeid.to_string()
          self.__log.info("Subscribed on data change; device: %s, key: %s, path: %s", ...)

      node['valid'] = True
  \<close>
\<close>

definition subscribe_binding ::
  "client \<Rightarrow> node \<Rightarrow> binding \<Rightarrow> connector \<Rightarrow> (exn + unit) \<times> binding \<times> connector"
where
  "subscribe_binding cl found_node node st =
     (if node_valid node = None \<or> (node_valid node = Some True \<and> \<not> enable_subscriptions st) then
        (if enable_subscriptions st \<and> \<not> node_sub_on node \<and> \<not> stopped st then
           (case (if subscription st = None then
                    (case create_subscription cl of
                       Inl e \<Rightarrow> Inl (e, emit CreateSubscription st)
                     | Inr sub \<Rightarrow> Inr ((emit CreateSubscription st)\<lparr>subscription := Some sub\<rparr>))
                  else Inr st) of
              Inl (e, st1) \<Rightarrow> (Inl e, node, st1)
            | Inr st1 \<Rightarrow>
                (case subscribe_data_change cl found_node of
                   Inl e \<Rightarrow> (Inl e, node, emit (SubscribeDataChange found_node) st1)
                 | Inr h \<Rightarrow>
                     (Inr (),
                      node\<lparr>node_subscription := Some h, node_sub_on := True,
                           node_id := Some found_node, node_valid := Some True\<rparr>,
                      emit (LogMsg ''Subscribed on data change'')
                        (emit (SubscribeDataChange found_node) st1))))
         else (Inr (), node\<lparr>node_valid := Some True\<rparr>, st))
      else (Inr (), node, st))"

text \<open>The whole \<^verbatim>\<open>try\<close> block for one binding of a section; \<open>bound\<close> is \<^verbatim>\<open>device.nodes\<close>.\<close>

definition load_node_try ::
  "client \<Rightarrow> value_section \<Rightarrow> binding \<Rightarrow> bound_node list \<Rightarrow> connector \<Rightarrow>
   (exn + unit) \<times> binding \<times> bound_node list \<times> connector"
where
  "load_node_try cl sec node bound st =
     (case resolve_binding cl node st of
        (Inl e, node1, st1) \<Rightarrow> (Inl e, node1, bound, st1)
      | (Inr None, node1, st1) \<Rightarrow> (Inr (), node1, bound, st1)
      | (Inr (Some found_node), node1, st1) \<Rightarrow>
          (case subscribe_binding cl found_node node1 st1 of
             (r, node2, st2) \<Rightarrow> (r, node2, bound @ [(found_node, node_key node1, sec)], st2)))"

text \<open>
  The \<^verbatim>\<open>except\<close> clauses, in their order:
  \<^verbatim>\<open>
  except ConnectionError as e:
      raise e
  except (BadNodeIdUnknown, BadConnectionClosed, BadInvalidState, BadAttributeIdInvalid,
          BadCommunicationError, BadOutOfService, BadNoMatch, BadUnexpectedError,
          UaStatusCodeErrors,
          BadWaitingForInitialData):
      if node.get('valid', True):
          self.__log.warning('Node not found (2); device: %s, key: %s, path: %s', ...)
          await self.__reset_node(node)
  except UaStatusCodeError as uae:
      if node.get('valid', True):
          self.__log.exception('Node status code error: %s', uae)
          await self.__reset_node(node)
  except Exception as e:
      if node.get('valid', True):
          self.__log.exception(e)
          await self.__reset_node(node)
  \<close>
\<close>

definition node_not_found_class :: "exn \<Rightarrow> bool" where
  "node_not_found_class e =
     (e \<in> {BadNodeIdUnknown, BadConnectionClosed, BadInvalidState, BadAttributeIdInvalid,
            BadCommunicationError, BadOutOfService, BadNoMatch, BadUnexpectedError,
            UaStatusCodeErrors, BadWaitingForInitialData})"

definition is_UaStatusCodeError :: "exn \<Rightarrow> bool" where
  "is_UaStatusCodeError e =
     (node_not_found_class e \<or> e = BadSessionClosed \<or> e = UaStatusCodeError)"

definition handler_message :: "exn \<Rightarrow> string" where
  "handler_message e =
     (if node_not_found_class e then ''Node not found (2)''
      else if is_UaStatusCodeError e then ''Node status code error''
      else ''Exception'')"

definition load_node ::
  "client \<Rightarrow> value_section \<Rightarrow> binding \<Rightarrow> bound_node list \<Rightarrow> connector \<Rightarrow>
   (exn + unit) \<times> binding \<times> bound_node list \<times> connector"
where
  "load_node cl sec node bound st =
     (case load_node_try cl sec node bound st of
        (Inr _, node1, bound1, st1) \<Rightarrow> (Inr (), node1, bound1, st1)
      | (Inl e, node1, bound1, st1) \<Rightarrow>
          if e = ConnectionError then (Inl e, node1, bound1, st1)
          else if is_Exception e then
            (if node_valid node1 \<noteq> Some False then
               (case reset_node cl node1 (emit (LogMsg (handler_message e)) st1) of
                  (r, node2, st2) \<Rightarrow> (r, node2, bound1, st2))
             else (Inr (), node1, bound1, st1))
          else (Inl e, node1, bound1, st1))"

text \<open>
  \<^verbatim>\<open>
  async def _load_devices_nodes(self):
      for device in self.__device_nodes:
          device.nodes = []
          for section in ('attributes', 'timeseries'):
              for node in device.values.get(section, []):
                  try: ...
  \<close>
  The loops, innermost first.
\<close>

fun load_section ::
  "client \<Rightarrow> value_section \<Rightarrow> binding list \<Rightarrow> bound_node list \<Rightarrow> connector \<Rightarrow>
   (exn + unit) \<times> binding list \<times> bound_node list \<times> connector"
where
  "load_section cl sec [] bound st = (Inr (), [], bound, st)"
| "load_section cl sec (node # rest) bound st =
     (case load_node cl sec node bound st of
        (Inl e, node', bound', st') \<Rightarrow> (Inl e, node' # rest, bound', st')
      | (Inr _, node', bound', st') \<Rightarrow>
          (case load_section cl sec rest bound' st' of
             (r, rest', bound'', st'') \<Rightarrow> (r, node' # rest', bound'', st'')))"

definition load_device ::
  "client \<Rightarrow> device \<Rightarrow> connector \<Rightarrow> (exn + unit) \<times> device \<times> connector"
where
  "load_device cl dev st =
     (case load_section cl Attributes (dev_values dev Attributes) [] st of
        (Inl e, attrs, bound, st') \<Rightarrow>
          (Inl e, dev\<lparr>dev_values := (dev_values dev)(Attributes := attrs), dev_nodes := bound\<rparr>, st')
      | (Inr _, attrs, bound, st') \<Rightarrow>
          (case load_section cl Timeseries (dev_values dev Timeseries) bound st' of
             (r, ts, bound', st'') \<Rightarrow>
               (r, dev\<lparr>dev_values := (dev_values dev)(Attributes := attrs, Timeseries := ts),
                       dev_nodes := bound'\<rparr>, st'')))"

fun load_devices ::
  "client \<Rightarrow> device list \<Rightarrow> connector \<Rightarrow> (exn + unit) \<times> device list \<times> connector"
where
  "load_devices cl [] st = (Inr (), [], st)"
| "load_devices cl (dev # rest) st =
     (case load_device cl dev st of
        (Inl e, dev', st') \<Rightarrow> (Inl e, dev' # rest, st')
      | (Inr _, dev', st') \<Rightarrow>
          (case load_devices cl rest st' of
             (r, rest', st'') \<Rightarrow> (r, dev' # rest', st'')))"

definition load_devices_nodes :: "client \<Rightarrow> connector \<Rightarrow> (exn + unit) \<times> connector" where
  "load_devices_nodes cl st =
     (case load_devices cl (device_nodes st) st of
        (r, devs, st') \<Rightarrow> (r, st'\<lparr>device_nodes := devs\<rparr>))"

subsection \<open>Creating the devices of a scan\<close>

text \<open>
  \<^verbatim>\<open>re.search(r"\${([A-Za-z.:\\\d]+)}", pattern)\<close>: the leftmost \<^verbatim>\<open>${\<close>, one or more
  letters, digits, dots, colons or backslashes, and \<^verbatim>\<open>}\<close>. The answer is the pair of
  \<^verbatim>\<open>group(0)\<close> and \<^verbatim>\<open>group(1)\<close>.
\<close>

definition placeholder_char :: "char \<Rightarrow> bool" where
  "placeholder_char c = (is_alnum c \<or> c = CHR ''.'' \<or> c = CHR '':'' \<or> c = CHR 0x5C)"

fun re_search_placeholder :: "string \<Rightarrow> (string \<times> string) option" where
  "re_search_placeholder [] = None"
| "re_search_placeholder (c # cs) =
     (let inner = takeWhile placeholder_char (drop 1 cs) in
      if c = CHR ''$'' \<and> prefix ''{'' cs \<and> inner \<noteq> [] \<and>
         prefix ''}'' (dropWhile placeholder_char (drop 1 cs))
      then Some (''${'' @ inner @ ''}'', inner)
      else re_search_placeholder cs)"

text \<open>\<^verbatim>\<open>s.replace(old, new)\<close> for a non-empty \<open>old\<close>.\<close>

function py_replace :: "string \<Rightarrow> string \<Rightarrow> string \<Rightarrow> string" where
  "py_replace old new [] = []"
| "py_replace old new (c # cs) =
     (if old \<noteq> [] \<and> prefix old (c # cs)
      then new @ py_replace old new (drop (length old) (c # cs))
      else c # py_replace old new cs)"
  by pat_completeness auto
termination
  by (relation "measure (\<lambda>(old, new, s). length s)") auto

text \<open>
  \<^verbatim>\<open>
  async def _get_device_info_by_pattern(self, pattern, get_first=False):
      result = []
      search_result = re.search(r"\${([A-Za-z.:\\\d]+)}", pattern)
      if search_result:
          try:
              group = search_result.group(0)
              node_path = search_result.group(1)
          except IndexError: ...
          nodes = await self.find_nodes(node_path)
          self.__log.debug('Found device name nodes: %s', nodes)
          for node in nodes:
              try:
                  var = await self.__client.nodes.root.get_child(node)
                  value = await var.read_value()
                  result.append(pattern.replace(group, str(value)))
              except Exception as e:
                  self.__log.exception(e)
                  continue
      else:
          result.append(pattern)
      return result[0] if len(result) > 0 and get_first else result
  \<close>
  \<open>device_info_values\<close> is the loop, \<open>get_device_info_by_pattern\<close> the list \<^verbatim>\<open>result\<close>, and
  \<open>device_info_result\<close> the last line. A pattern that is \<^verbatim>\<open>None\<close> makes \<^verbatim>\<open>re.search\<close> raise
  \<^verbatim>\<open>TypeError\<close>.
\<close>

fun device_info_values ::
  "client \<Rightarrow> string \<Rightarrow> string \<Rightarrow> string list list \<Rightarrow> connector \<Rightarrow> (exn + string list) \<times> connector"
where
  "device_info_values cl pattern grp [] st = (Inr [], st)"
| "device_info_values cl pattern grp (node # rest) st =
     (case (case get_child cl (root cl) (PathList node) of
              Inl e \<Rightarrow> Inl e
            | Inr var \<Rightarrow> read_value cl var) of
        Inl e \<Rightarrow>
          if is_Exception e then device_info_values cl pattern grp rest (emit (LogMsg ''Exception'') st)
          else (Inl e, st)
      | Inr v \<Rightarrow>
          (case device_info_values cl pattern grp rest st of
             (Inl e, st') \<Rightarrow> (Inl e, st')
           | (Inr result, st') \<Rightarrow> (Inr (py_replace grp v pattern # result), st')))"

definition get_device_info_by_pattern ::
  "client \<Rightarrow> string option \<Rightarrow> connector \<Rightarrow> (exn + string list) \<times> connector"
where
  "get_device_info_by_pattern cl pattern st =
     (case pattern of
        None \<Rightarrow> (Inl TypeError, st)
      | Some pat \<Rightarrow>
          (case re_search_placeholder pat of
             None \<Rightarrow> (Inr [pat], st)
           | Some (grp, group1) \<Rightarrow>
               (case find_nodes cl group1 None [] of
                  Inl e \<Rightarrow> (Inl e, st)
                | Inr nodes \<Rightarrow>
                    device_info_values cl pat grp nodes
                      (emit (LogMsg ''Found device name nodes'') st))))"

definition device_info_result :: "string list \<Rightarrow> bool \<Rightarrow> info" where
  "device_info_result result get_first =
     (if length result > 0 \<and> get_first then InfoFirst (hd result) else InfoAll result)"

text \<open>
  \<^verbatim>\<open>
  def __load_converter(self, device):
      converter_class_name = device.get('converter', DEFAULT_UPLINK_CONVERTER)
      module = TBModuleLoader.import_module(self._connector_type, converter_class_name)
      if module:
          self.__log.debug('Converter %s for device %s - found!', ...)
          return module
      self.__log.error("Cannot find converter for %s device", self.name)
      return None
  \<close>
\<close>

definition DEFAULT_UPLINK_CONVERTER :: string where
  "DEFAULT_UPLINK_CONVERTER = ''OpcUaUplinkConverter''"

definition load_converter ::
  "mapping \<Rightarrow> connector \<Rightarrow> (device_config \<Rightarrow> converter) option \<times> connector"
where
  "load_converter device st =
     (case import_module st
             (case converter_name device of None \<Rightarrow> DEFAULT_UPLINK_CONVERTER | Some n \<Rightarrow> n) of
        Some module \<Rightarrow> (Some module, emit (LogMsg ''Converter found'') st)
      | None \<Rightarrow> (None, emit (LogMsg ''Cannot find converter'') st))"

text \<open>\<^verbatim>\<open>{**device, 'device_name': device_name, 'device_type': device_type}\<close>\<close>

definition make_device_config :: "mapping \<Rightarrow> string \<Rightarrow> info \<Rightarrow> device_config" where
  "make_device_config device name type =
     \<lparr>deviceNodePattern = deviceNodePattern device,
      deviceNameExpression = deviceNameExpression device,
      deviceProfileExpression = deviceProfileExpression device,
      converter_name = converter_name device,
      attributes = attributes device, timeseries = timeseries device,
      attributes_updates = attributes_updates device, rpc_methods = rpc_methods device,
      device_name = name, device_type = type\<rparr>"

text \<open>
  \<^verbatim>\<open>
  async def _create_new_devices(self):
      existing_devices = list(map(lambda dev: dev.name, self.__device_nodes))

      scanned_devices = []
      for device in self.__config.get('mapping', []):
          nodes = await self.find_nodes(device['deviceNodePattern'])
          self.__log.debug('Found devices: %s', nodes)

          device_names = await self._get_device_info_by_pattern(
              device.get('deviceInfo', {}).get('deviceNameExpression'))

          for device_name in device_names:
              scanned_devices.append(device_name)
              if device_name not in existing_devices:
                  for node in nodes:
                      converter = self.__load_converter(device)
                      device_type = await self._get_device_info_by_pattern(
                          device.get('deviceInfo', {}).get('deviceProfileExpression', 'default'),
                          get_first=True)
                      device_config = {**device, 'device_name': device_name, 'device_type': device_type}
                      self.__device_nodes.append(
                          Device(path=node, name=device_name, config=device_config,
                                 converter=converter(device_config, self.__log),
                                 converter_for_sub=converter(device_config,
                                                             self.__log) if self.__enable_subscriptions else None,
                                 logger=self.__log))

                      self.__log.info('Added device node: %s', device_name)

      for device_name in existing_devices:
          if device_name not in scanned_devices:
              await self.__reset_nodes(device_name)

      self.__log.debug('Device nodes: %s', self.__device_nodes)
  \<close>
  The loops, innermost first: \<open>add_device_nodes\<close> over \<^verbatim>\<open>nodes\<close>, \<open>scan_device_names\<close> over
  \<^verbatim>\<open>device_names\<close>, \<open>scan_mappings\<close> over the templates, \<open>reset_absent\<close> over
  \<^verbatim>\<open>existing_devices\<close>. Calling a converter class that is \<^verbatim>\<open>None\<close> raises \<^verbatim>\<open>TypeError\<close>.
\<close>

fun add_device_nodes ::
  "client \<Rightarrow> mapping \<Rightarrow> string \<Rightarrow> string list list \<Rightarrow> connector \<Rightarrow> (exn + unit) \<times> connector"
where
  "add_device_nodes cl device name [] st = (Inr (), st)"
| "add_device_nodes cl device name (node # rest) st =
     (case load_converter device st of
        (conv, st1) \<Rightarrow>
          (case get_device_info_by_pattern cl
                  (Some (case deviceProfileExpression device of None \<Rightarrow> ''default'' | Some x \<Rightarrow> x))
                  st1 of
             (Inl e, st2) \<Rightarrow> (Inl e, st2)
           | (Inr result, st2) \<Rightarrow>
               (let cfg = make_device_config device name (device_info_result result True) in
                case conv of
                  None \<Rightarrow> (Inl TypeError, st2)
                | Some cls \<Rightarrow>
                    add_device_nodes cl device name rest
                      (emit (LogMsg ''Added device node'')
                         (st2\<lparr>device_nodes := device_nodes st2 @
                            [Device node name cfg (cls cfg)
                               (if enable_subscriptions st2 then Some (cls cfg) else None)]\<rparr>)))))"

fun scan_device_names ::
  "client \<Rightarrow> string list \<Rightarrow> mapping \<Rightarrow> string list list \<Rightarrow> string list \<Rightarrow> string list \<Rightarrow>
   connector \<Rightarrow> (exn + unit) \<times> string list \<times> connector"
where
  "scan_device_names cl existing device nodes [] scanned st = (Inr (), scanned, st)"
| "scan_device_names cl existing device nodes (name # rest) scanned st =
     (if name \<notin> set existing then
        (case add_device_nodes cl device name nodes st of
           (Inl e, st1) \<Rightarrow> (Inl e, scanned @ [name], st1)
         | (Inr _, st1) \<Rightarrow>
             scan_device_names cl existing device nodes rest (scanned @ [name]) st1)
      else scan_device_names cl existing device nodes rest (scanned @ [name]) st)"

fun scan_mappings ::
  "client \<Rightarrow> string list \<Rightarrow> mapping list \<Rightarrow> string list \<Rightarrow> connector \<Rightarrow>
   (exn + unit) \<times> string list \<times> connector"
where
  "scan_mappings cl existing [] scanned st = (Inr (), scanned, st)"
| "scan_mappings cl existing (device # rest) scanned st =
     (case find_nodes cl (deviceNodePattern device) None [] of
        Inl e \<Rightarrow> (Inl e, scanned, st)
      | Inr nodes \<Rightarrow>
          (case get_device_info_by_pattern cl (deviceNameExpression device)
                  (emit (LogMsg ''Found devices'') st) of
             (Inl e, st1) \<Rightarrow> (Inl e, scanned, st1)
           | (Inr device_names, st1) \<Rightarrow>
               (case scan_device_names cl existing device nodes device_names scanned st1 of
                  (Inl e, scanned1, st2) \<Rightarrow> (Inl e, scanned1, st2)
                | (Inr _, scanned1, st2) \<Rightarrow> scan_mappings cl existing rest scanned1 st2)))"

fun reset_absent ::
  "client \<Rightarrow> string list \<Rightarrow> string list \<Rightarrow> connector \<Rightarrow> (exn + unit) \<times> connector"
where
  "reset_absent cl [] scanned st = (Inr (), st)"
| "reset_absent cl (name # rest) scanned st =
     (if name \<notin> set scanned then
        (case reset_nodes cl (Some name) st of
           (Inl e, st1) \<Rightarrow> (Inl e, st1)
         | (Inr _, st1) \<Rightarrow> reset_absent cl rest scanned st1)
      else reset_absent cl rest scanned st)"

definition create_new_devices :: "client \<Rightarrow> connector \<Rightarrow> (exn + unit) \<times> connector" where
  "create_new_devices cl st =
     (let existing_devices = map dev_name (device_nodes st) in
      case scan_mappings cl existing_devices (config_mapping st) [] st of
        (Inl e, scanned_devices, st1) \<Rightarrow> (Inl e, st1)
      | (Inr _, scanned_devices, st1) \<Rightarrow>
          (case reset_absent cl existing_devices scanned_devices st1 of
             (Inl e, st2) \<Rightarrow> (Inl e, st2)
           | (Inr _, st2) \<Rightarrow> (Inr (), emit (LogMsg ''Device nodes'') st2)))"

text \<open>
  \<^verbatim>\<open>
  async def __scan_device_nodes(self):
      await self._create_new_devices()
      await self._load_devices_nodes()
  \<close>
\<close>

definition scan_device_nodes :: "client \<Rightarrow> connector \<Rightarrow> (exn + unit) \<times> connector" where
  "scan_device_nodes cl st =
     (case create_new_devices cl st of
        (Inl e, st1) \<Rightarrow> (Inl e, st1)
      | (Inr _, st1) \<Rightarrow> load_devices_nodes cl st1)"

subsection \<open>Polling\<close>

text \<open>
  \<^verbatim>\<open>
  async def __poll_nodes(self):
      all_nodes = [node_config['node'] for device in self.__device_nodes for node_config in device.nodes]

      if len(all_nodes) > 0:
          values = await self.__client.read_attributes(all_nodes)

          converted_nodes_count = 0
          for device in self.__device_nodes:
              nodes_count = len(device.nodes)
              device_values = values[converted_nodes_count:converted_nodes_count + nodes_count]
              converted_nodes_count += nodes_count
              converter_data = device.converter.convert(device.nodes, device_values)
              if converter_data:
                  self.__data_to_send.put(converter_data)

          self.__log.debug('Converted nodes values count: %s', converted_nodes_count)
      else:
          self.__log.info('No nodes to poll')
  \<close>
  A converter that returns nothing to send is \<open>None\<close>.
\<close>

definition all_nodes :: "device list \<Rightarrow> node list" where
  "all_nodes devs = concat (map (\<lambda>dev. map fst (dev_nodes dev)) devs)"

fun poll_devices ::
  "val list \<Rightarrow> device list \<Rightarrow> nat \<Rightarrow> connector \<Rightarrow> (exn + unit) \<times> connector"
where
  "poll_devices vals [] converted_nodes_count st =
     (Inr (), emit (LogMsg ''Converted nodes values count'') st)"
| "poll_devices vals (dev # rest) converted_nodes_count st =
     (let nodes_count = length (dev_nodes dev);
          device_values = take nodes_count (drop converted_nodes_count vals);
          st1 = emit (Convert (dev_name dev) (dev_nodes dev) device_values) st
      in
      case dev_converter dev (dev_nodes dev) device_values of
        Inl e \<Rightarrow> (Inl e, st1)
      | Inr None \<Rightarrow> poll_devices vals rest (converted_nodes_count + nodes_count) st1
      | Inr (Some converter_data) \<Rightarrow>
          poll_devices vals rest (converted_nodes_count + nodes_count) (emit (Put converter_data) st1))"

definition poll_nodes :: "client \<Rightarrow> connector \<Rightarrow> (exn + unit) \<times> connector" where
  "poll_nodes cl st =
     (if length (all_nodes (device_nodes st)) > 0 then
        (case read_attributes cl (all_nodes (device_nodes st)) of
           Inl e \<Rightarrow> (Inl e, emit (ReadAttributes (all_nodes (device_nodes st))) st)
         | Inr vals \<Rightarrow>
             poll_devices vals (device_nodes st) 0
               (emit (ReadAttributes (all_nodes (device_nodes st))) st))
      else (Inr (), emit (LogMsg ''No nodes to poll'') st))"

subsection \<open>Reading, writing and calling on request\<close>

text \<open>
  The three coroutines the RPC handler starts as tasks. Each catches every \<^verbatim>\<open>Exception\<close>
  and stores its text in \<^verbatim>\<open>result\<close>; the handler waits until the task is done and never
  asks the task for its outcome, so the handler sees only \<^verbatim>\<open>result\<close>, which stays empty
  when the task ends by a \<^verbatim>\<open>BaseException\<close>.
  \<^verbatim>\<open>
  async def __write_value(self, path, value, result={}):
      try:
          var = path
          if isinstance(path, str):
              var = self.__client.get_node(path.replace('\\.', '.'))
          await var.write_value(value)
      except Exception as e:
          result['error'] = e.__str__()

  async def __read_value(self, path, result={}):
      try:
          var = self.__client.get_node(path)
          result['value'] = await var.read_value()
      except Exception as e:
          result['error'] = e.__str__()

  async def __call_method(self, path, method_name, arguments, result={}):
      try:
          var = await self.__client.nodes.root.get_child(path)
          method_id = '{}:{}'.format(var.nodeid.NamespaceIndex, method_name)
          result['result'] = await var.call_method(method_id, *arguments)
      except Exception as e:
          result['error'] = e.__str__()
  \<close>
\<close>

type_synonym result = "(string \<times> string) list"

definition error_result :: "exn \<Rightarrow> result" where
  "error_result e = (if is_Exception e then [(''error'', exn_str e)] else [])"

definition priv_write_value :: "client \<Rightarrow> string \<Rightarrow> val \<Rightarrow> connector \<Rightarrow> result \<times> connector" where
  "priv_write_value cl p v st =
     (case get_node cl (py_replace escaped_dot ''.'' p) of
        Inl e \<Rightarrow> (error_result e, st)
      | Inr var \<Rightarrow>
          (case write_value cl var v of
             Inl e \<Rightarrow> (error_result e, emit (WriteValue var v) st)
           | Inr _ \<Rightarrow> ([], emit (WriteValue var v) st)))"

definition priv_read_value :: "client \<Rightarrow> string \<Rightarrow> connector \<Rightarrow> result \<times> connector" where
  "priv_read_value cl p st =
     (case get_node cl p of
        Inl e \<Rightarrow> (error_result e, st)
      | Inr var \<Rightarrow>
          (case read_value cl var of
             Inl e \<Rightarrow> (error_result e, emit (ReadValue var) st)
           | Inr v \<Rightarrow> ([(''value'', v)], emit (ReadValue var) st)))"

text \<open>
  The arguments of a request: a string, a list, or a dictionary of lists. \<open>unpack\<close> is
  \<^verbatim>\<open>*arguments\<close>: the characters of a string, the items of a list, the keys of a
  dictionary; unpacking \<^verbatim>\<open>None\<close> raises \<^verbatim>\<open>TypeError\<close>.
\<close>

datatype rpc_params = ParamStr string | ParamList "val list" | ParamDict "(string \<times> val list) list"

definition unpack :: "rpc_params option \<Rightarrow> exn + val list" where
  "unpack a =
     (case a of
        None \<Rightarrow> Inl TypeError
      | Some (ParamStr s) \<Rightarrow> Inr (map (\<lambda>c. [c]) s)
      | Some (ParamList l) \<Rightarrow> Inr l
      | Some (ParamDict d) \<Rightarrow> Inr (remdups (map fst d)))"

definition priv_call_method ::
  "client \<Rightarrow> string list \<Rightarrow> string \<Rightarrow> rpc_params option \<Rightarrow> connector \<Rightarrow> result \<times> connector"
where
  "priv_call_method cl p method_name arguments st =
     (case get_child cl (root cl) (PathList p) of
        Inl e \<Rightarrow> (error_result e, st)
      | Inr var \<Rightarrow>
          (let method_id = py_str_nat (namespace_index cl var) @ '':'' @ method_name in
           case unpack arguments of
             Inl e \<Rightarrow> (error_result e, st)
           | Inr args \<Rightarrow>
               (case call_method cl var method_id args of
                  Inl e \<Rightarrow> (error_result e, emit (CallMethod var method_id args) st)
                | Inr v \<Rightarrow> ([(''result'', v)], emit (CallMethod var method_id args) st))))"

subsection \<open>\<^verbatim>\<open>server_side_rpc_handler\<close>\<close>

text \<open>
  The request \<^verbatim>\<open>content\<close>: a dictionary whose keys \<^verbatim>\<open>'data'\<close>, \<^verbatim>\<open>'device'\<close>, \<^verbatim>\<open>'params'\<close>,
  \<^verbatim>\<open>'method'\<close> and \<^verbatim>\<open>'id'\<close> may each be missing (\<open>None\<close>); \<^verbatim>\<open>content['data']\<close> is a
  dictionary with the keys \<^verbatim>\<open>'params'\<close>, \<^verbatim>\<open>'method'\<close> and \<^verbatim>\<open>'id'\<close>. Reading a missing key
  with \<^verbatim>\<open>[...]\<close> raises \<^verbatim>\<open>KeyError\<close>.
\<close>

record rpc_data =
  data_params :: "rpc_params option"
  data_method :: "string option"
  data_id :: "nat option"

record content =
  content_data :: "rpc_data option"
  content_device :: "string option"
  content_params :: "rpc_params option"
  content_method :: "string option"
  content_id :: "nat option"

definition key :: "'a option \<Rightarrow> exn + 'a" where
  "key v = (case v of None \<Rightarrow> Inl KeyError | Some x \<Rightarrow> Inr x)"

text \<open>\<^verbatim>\<open>sub in s\<close> for strings.\<close>

fun py_contains :: "string \<Rightarrow> string \<Rightarrow> bool" where
  "py_contains sub [] = (sub = [])"
| "py_contains sub (c # cs) = (prefix sub (c # cs) \<or> py_contains sub cs)"

text \<open>
  \<^verbatim>\<open>
  if content.get('data') is None:
      content['data'] = {'params': content['params'], 'method': content['method'], 'id': content['id']}
  \<close>
\<close>

definition fill_data :: "content \<Rightarrow> exn + rpc_data" where
  "fill_data c =
     (case content_data c of
        Some d \<Rightarrow> Inr d
      | None \<Rightarrow>
          (case (content_params c, content_method c, content_id c) of
             (Some p, Some m, Some i) \<Rightarrow>
               Inr \<lparr>data_params = Some p, data_method = Some m, data_id = Some i\<rparr>
           | _ \<Rightarrow> Inl KeyError))"

text \<open>
  \<^verbatim>\<open>
  rpc_method = content["data"].get("method")

  # check if RPC type is connector RPC (can be only 'get' or 'set')
  try:
      (connector_type, rpc_method_name) = rpc_method.split('_')
      if connector_type == self._connector_type:
          rpc_method = rpc_method_name
          content['device'] = content['params'].split(' ')[0].split('=')[-1]
  except (ValueError, IndexError):
      self.__log.error('Invalid RPC method name: %s', rpc_method)
  except AttributeError:
      pass
  \<close>
  The value is the pair of \<^verbatim>\<open>rpc_method\<close> and \<^verbatim>\<open>content.get('device')\<close> afterwards.
\<close>

definition connector_rpc ::
  "content \<Rightarrow> rpc_data \<Rightarrow> connector \<Rightarrow> (exn + string option \<times> string option) \<times> connector"
where
  "connector_rpc c d st =
     (case data_method d of
        None \<Rightarrow> (Inr (None, content_device c), st)
      | Some rpc_method \<Rightarrow>
          (case py_split ''_'' rpc_method of
             [ctype, rpc_method_name] \<Rightarrow>
               if ctype = connector_type st then
                 (case content_params c of
                    None \<Rightarrow> (Inl KeyError, st)
                  | Some (ParamStr ps) \<Rightarrow>
                      (Inr (Some rpc_method_name,
                            Some (last (py_split ''='' (hd (py_split '' '' ps))))), st)
                  | Some _ \<Rightarrow> (Inr (Some rpc_method_name, content_device c), st))
               else (Inr (Some rpc_method, content_device c), st)
           | _ \<Rightarrow>
               (Inr (Some rpc_method, content_device c),
                emit (LogMsg ''Invalid RPC method name'') st)))"

text \<open>
  The branch for \<^verbatim>\<open>'get'\<close> and \<^verbatim>\<open>'set'\<close>:
  \<^verbatim>\<open>
  full_path = ''
  args_list = []
  device = content.get('device')

  try:
      args_list = content['data']['params'].split(';')

      if 'ns' in content['data']['params']:
          full_path = ';'.join(
              [item for item in (args_list[0:-1] if rpc_method == 'set' else args_list)])
      else:
          full_path = args_list[0].split('=')[-1]
  except IndexError:
      ... reply with code 400 ...

  result = {}
  if rpc_method == 'get':
      task = self.__loop.create_task(self.__read_value(full_path, result))
      while not task.done(): sleep(.2)
  elif rpc_method == 'set':
      value = args_list[2].split('=')[-1]
      task = self.__loop.create_task(self.__write_value(full_path, value, result))
      while not task.done(): sleep(.2)

  self.__gateway.send_rpc_reply(device=device,
                                req_id=content['data'].get('id'),
                                content={content['data']['method']: result})
  \<close>
  \<^verbatim>\<open>str.split\<close> gives a list with at least one item, so nothing in the \<^verbatim>\<open>try\<close> block raises
  \<^verbatim>\<open>IndexError\<close>; parameters that are missing or not a string raise \<^verbatim>\<open>KeyError\<close> or
  \<^verbatim>\<open>AttributeError\<close>, which this \<^verbatim>\<open>try\<close> does not catch. \<open>nth_item\<close> is \<^verbatim>\<open>xs[i]\<close>.
\<close>

definition nth_item :: "'a list \<Rightarrow> nat \<Rightarrow> exn + 'a" where
  "nth_item xs i = (if i < length xs then Inr (xs ! i) else Inl IndexError)"

definition get_set_rpc ::
  "client \<Rightarrow> string \<Rightarrow> string \<Rightarrow> rpc_data \<Rightarrow> connector \<Rightarrow> (exn + unit) \<times> connector"
where
  "get_set_rpc cl rpc_method device d st =
     (case data_params d of
        None \<Rightarrow> (Inl KeyError, st)
      | Some (ParamList _) \<Rightarrow> (Inl AttributeError, st)
      | Some (ParamDict _) \<Rightarrow> (Inl AttributeError, st)
      | Some (ParamStr ps) \<Rightarrow>
          (let args_list = py_split '';'' ps;
               full_path =
                 (if py_contains ''ns'' ps
                  then py_join '';'' (if rpc_method = ''set'' then butlast args_list else args_list)
                  else last (py_split ''='' (hd args_list)))
           in
           case (if rpc_method = ''get'' then Inr (priv_read_value cl full_path st)
                 else
                   (case nth_item args_list 2 of
                      Inl e \<Rightarrow> Inl e
                    | Inr a \<Rightarrow> Inr (priv_write_value cl full_path (last (py_split ''='' a)) st))) of
             Inl e \<Rightarrow> (Inl e, st)
           | Inr (res, st1) \<Rightarrow>
               (case key (data_method d) of
                  Inl e \<Rightarrow> (Inl e, st1)
                | Inr m \<Rightarrow>
                    (Inr (), emit (SendRpcReply device (data_id d) [(m, ReplyResult res)]) st1))))"

text \<open>
  The branch for a method of a device:
  \<^verbatim>\<open>
  device = tuple(filter(lambda i: i.name == content['device'], self.__device_nodes))[0]

  for rpc in device.config['rpc_methods']:
      if rpc['method'] == content["data"]['method']:
          arguments_from_config = rpc["arguments"]
          arguments = content["data"].get("params") if content["data"].get(
              "params") is not None else arguments_from_config
          method_name = content['data']['method']

          try:
              result = {}
              task = self.__loop.create_task(
                  self.__call_method(device.path, method_name, arguments, result))
              while not task.done(): sleep(.2)

              self.__gateway.send_rpc_reply(content["device"],
                                            content["data"]["id"],
                                            {content["data"]["method"]: result, "code": 200})
              self.__log.debug("method %s result is: %s", rpc['method'], result)
          except Exception as e:
              self.__log.exception(e)
              self.__gateway.send_rpc_reply(content["device"], content["data"]["id"],
                                            {"error": str(e), "code": 500})
      else:
          self.__log.error("Method %s not found for device %s", rpc_method, content["device"])
          self.__gateway.send_rpc_reply(content["device"], content["data"]["id"],
                                        {"error": "%s - Method not found" % rpc_method,
                                         "code": 404})
  \<close>
  \<open>device_rpc_loop\<close> is the \<^verbatim>\<open>for\<close> loop over the entries of the table still to visit. A
  dictionary literal with the same key twice keeps the later value (\<open>dict2\<close>). The only
  thing that can raise inside the inner \<^verbatim>\<open>try\<close> is \<^verbatim>\<open>content["data"]["id"]\<close>, and then the
  handler's own \<^verbatim>\<open>content["data"]["id"]\<close> raises again.
\<close>

definition dict2 :: "string \<Rightarrow> reply_value \<Rightarrow> string \<Rightarrow> reply_value \<Rightarrow> (string \<times> reply_value) list" where
  "dict2 k1 v1 k2 v2 = (if k1 = k2 then [(k2, v2)] else [(k1, v1), (k2, v2)])"

fun device_rpc_loop ::
  "client \<Rightarrow> device \<Rightarrow> string \<Rightarrow> string \<Rightarrow> string \<Rightarrow> rpc_data \<Rightarrow> (string \<times> val list) list \<Rightarrow>
   connector \<Rightarrow> (exn + unit) \<times> connector"
where
  "device_rpc_loop cl dev cdevice rpc_method m d [] st = (Inr (), st)"
| "device_rpc_loop cl dev cdevice rpc_method m d (rpc # rest) st =
     (if fst rpc = m then
        (let arguments = (case data_params d of
                            Some p \<Rightarrow> Some p
                          | None \<Rightarrow> Some (ParamList (snd rpc)))
         in
         case priv_call_method cl (dev_path dev) m arguments st of
           (res, st1) \<Rightarrow>
             (case data_id d of
                None \<Rightarrow> (Inl KeyError, emit (LogMsg ''Exception'') st1)
              | Some i \<Rightarrow>
                  device_rpc_loop cl dev cdevice rpc_method m d rest
                    (emit (LogMsg ''method result'')
                       (emit (SendRpcReply cdevice (Some i)
                                (dict2 m (ReplyResult res) ''code'' (ReplyCode 200))) st1))))
      else
        (case data_id d of
           None \<Rightarrow> (Inl KeyError, emit (LogMsg ''Method not found'') st)
         | Some i \<Rightarrow>
             device_rpc_loop cl dev cdevice rpc_method m d rest
               (emit (SendRpcReply cdevice (Some i)
                        [(''error'', ReplyText (rpc_method @ '' - Method not found'')),
                         (''code'', ReplyCode 404)])
                  (emit (LogMsg ''Method not found'') st))))"

definition device_rpc ::
  "client \<Rightarrow> string \<Rightarrow> string \<Rightarrow> rpc_data \<Rightarrow> connector \<Rightarrow> (exn + unit) \<times> connector"
where
  "device_rpc cl rpc_method cdevice d st =
     (case filter (\<lambda>i. dev_name i = cdevice) (device_nodes st) of
        [] \<Rightarrow> (Inl IndexError, st)
      | dev # _ \<Rightarrow>
          (case rpc_methods (dev_config dev) of
             [] \<Rightarrow> (Inr (), st)
           | rpc # rest \<Rightarrow>
               (case key (data_method d) of
                  Inl e \<Rightarrow> (Inl e, st)
                | Inr m \<Rightarrow> device_rpc_loop cl dev cdevice rpc_method m d (rpc # rest) st)))"

text \<open>
  The branch for a request that names no device:
  \<^verbatim>\<open>
  results = []
  for device in self.__device_nodes:
      content['device'] = device.name
      arguments = content['data']['params']["arguments"]
      try:
          result = {}
          task = self.__loop.create_task(
              self.__call_method(device.path, rpc_method, arguments, result))
          while not task.done(): sleep(.2)
          results.append(result)
          self.__log.debug("method %s result is: %s", rpc_method, result)
      except Exception as e: ...
  return results
  \<close>
\<close>

definition arguments_of :: "rpc_data \<Rightarrow> exn + val list" where
  "arguments_of d =
     (case data_params d of
        None \<Rightarrow> Inl KeyError
      | Some (ParamStr _) \<Rightarrow> Inl TypeError
      | Some (ParamList _) \<Rightarrow> Inl TypeError
      | Some (ParamDict kvs) \<Rightarrow> key (map_of kvs ''arguments''))"

fun all_devices_rpc ::
  "client \<Rightarrow> string option \<Rightarrow> rpc_data \<Rightarrow> device list \<Rightarrow> connector \<Rightarrow> (exn + result list) \<times> connector"
where
  "all_devices_rpc cl rpc_method d [] st = (Inr [], st)"
| "all_devices_rpc cl rpc_method d (dev # rest) st =
     (case arguments_of d of
        Inl e \<Rightarrow> (Inl e, st)
      | Inr arguments \<Rightarrow>
          (case priv_call_method cl (dev_path dev)
                  (case rpc_method of None \<Rightarrow> ''None'' | Some m \<Rightarrow> m)
                  (Some (ParamList arguments)) st of
             (res, st1) \<Rightarrow>
               (case all_devices_rpc cl rpc_method d rest (emit (LogMsg ''method result'') st1) of
                  (Inl e, st2) \<Rightarrow> (Inl e, st2)
                | (Inr results, st2) \<Rightarrow> (Inr (res # results), st2))))"

text \<open>
  \<^verbatim>\<open>
  def server_side_rpc_handler(self, content):
      try:
          ...
          if content.get('device'):
              # firstly check if a method is not service
              if rpc_method == 'set' or rpc_method == 'get':
                  ...
              else:
                  ...
          else:
              ...
              return results
      except Exception as e:
          self.__log.exception(e)
  \<close>
  The value is what the handler returns: \<open>None\<close>, or the list \<^verbatim>\<open>results\<close>.
\<close>

definition server_side_rpc_handler ::
  "client \<Rightarrow> content \<Rightarrow> connector \<Rightarrow> result list option \<times> connector"
where
  "server_side_rpc_handler cl c st =
     (case fill_data c of
        Inl e \<Rightarrow> (None, emit (LogMsg ''Exception'') st)
      | Inr d \<Rightarrow>
          (case connector_rpc c d st of
             (Inl e, st1) \<Rightarrow> (None, emit (LogMsg ''Exception'') st1)
           | (Inr (rpc_method, device), st1) \<Rightarrow>
               (if device \<noteq> None \<and> device \<noteq> Some [] then
                  (case (if rpc_method = Some ''set'' \<or> rpc_method = Some ''get''
                         then get_set_rpc cl (case rpc_method of Some m \<Rightarrow> m | None \<Rightarrow> [])
                                (case device of Some dv \<Rightarrow> dv | None \<Rightarrow> []) d st1
                         else device_rpc cl (case rpc_method of Some m \<Rightarrow> m | None \<Rightarrow> [])
                                (case device of Some dv \<Rightarrow> dv | None \<Rightarrow> []) d st1) of
                     (Inl e, st2) \<Rightarrow> (None, emit (LogMsg ''Exception'') st2)
                   | (Inr _, st2) \<Rightarrow> (None, st2))
                else
                  (case all_devices_rpc cl rpc_method d (device_nodes st1) st1 of
                     (Inl e, st2) \<Rightarrow> (None, emit (LogMsg ''Exception'') st2)
                   | (Inr results, st2) \<Rightarrow> (Some results, st2)))))"

text \<open>The replies sent to the gateway and the values written to the server, read off a trace.\<close>

fun replies :: "event list \<Rightarrow> (string \<times> nat option \<times> (string \<times> reply_value) list) list" where
  "replies [] = []"
| "replies (SendRpcReply device req_id c # tr) = (device, req_id, c) # replies tr"
| "replies (_ # tr) = replies tr"

fun writes :: "event list \<Rightarrow> (node \<times> val) list" where
  "writes [] = []"
| "writes (WriteValue n v # tr) = (n, v) # writes tr"
| "writes (_ # tr) = writes tr"

fun unsubscribes :: "event list \<Rightarrow> handle option list" where
  "unsubscribes [] = []"
| "unsubscribes (Unsubscribe h # tr) = h # unsubscribes tr"
| "unsubscribes (_ # tr) = unsubscribes tr"

fun subscribes :: "event list \<Rightarrow> node list" where
  "subscribes [] = []"
| "subscribes (SubscribeDataChange n # tr) = n # subscribes tr"
| "subscribes (_ # tr) = subscribes tr"

fun reads :: "event list \<Rightarrow> node list list" where
  "reads [] = []"
| "reads (ReadAttributes ns # tr) = ns # reads tr"
| "reads (_ # tr) = reads tr"

fun converts :: "event list \<Rightarrow> (string \<times> bound_node list \<times> val list) list" where
  "converts [] = []"
| "converts (Convert name ns vs # tr) = (name, ns, vs) # converts tr"
| "converts (_ # tr) = converts tr"

text \<open>\<^verbatim>\<open>content.get('code')\<close> of a reply.\<close>

definition reply_code :: "(string \<times> reply_value) list \<Rightarrow> reply_value option" where
  "reply_code c = map_of c ''code''"

subsection \<open>Matching as the specification words it\<close>

text \<open>
  The specification's rule for matching a segment against a child, kept apart from
  \<open>child_matches\<close>, which is the test the code makes: "exact match on local name once
  namespace-qualifier is stripped, OR full-pattern regex match".
\<close>

definition spec_matches :: "string \<Rightarrow> string \<Rightarrow> bool" where
  "spec_matches segment name =
     (name = last (py_split '':'' segment) \<or> re_fullmatch segment name = Some True)"

text \<open>
  The same rule with the segment taken literally, never as a regular expression; the
  children of a node whose names match a segment in this sense; and the qualified path of a
  child, \<^verbatim>\<open>'<namespaceIndex>:<name>'\<close> of the child after the path of its parent. Here
  \<open>kids\<close> gives the children of a node and \<open>bname\<close> the browse name of a node, as the
  server answers.
\<close>

definition literal_match :: "string \<Rightarrow> string \<Rightarrow> bool" where
  "literal_match segment name = (name = segment \<or> name = last (py_split '':'' segment))"

definition matching_children ::
  "(node \<Rightarrow> node list) \<Rightarrow> (node \<Rightarrow> nat \<times> string) \<Rightarrow> string \<Rightarrow> node \<Rightarrow> node list" where
  "matching_children kids bname segment n =
     filter (\<lambda>c. literal_match segment (snd (bname c))) (kids n)"

definition child_path :: "(node \<Rightarrow> nat \<times> string) \<Rightarrow> string list \<Rightarrow> node \<Rightarrow> string list" where
  "child_path bname p c = p @ [qualified_name (fst (bname c)) (snd (bname c))]"

text \<open>
  Resolving a pattern level by level, as the specification describes it: a frontier is a
  list of nodes, each with the qualified path that led to it. A segment advances the
  frontier to the matching children of its nodes, in the order of the frontier and of the
  children; the frontier of a list of segments is reached by advancing once per segment.
\<close>

definition advance ::
  "(node \<Rightarrow> node list) \<Rightarrow> (node \<Rightarrow> nat \<times> string) \<Rightarrow> string \<Rightarrow>
   (string list \<times> node) list \<Rightarrow> (string list \<times> node) list" where
  "advance kids bname segment front =
     concat (map (\<lambda>(p, n). map (\<lambda>c. (child_path bname p c, c))
                              (matching_children kids bname segment n)) front)"

definition frontier ::
  "(node \<Rightarrow> node list) \<Rightarrow> (node \<Rightarrow> nat \<times> string) \<Rightarrow> string list \<Rightarrow>
   (string list \<times> node) list \<Rightarrow> (string list \<times> node) list" where
  "frontier kids bname segments front =
     foldl (\<lambda>fr segment. advance kids bname segment fr) front segments"

subsection \<open>An example server\<close>

text \<open>
  A small address space to run the definitions on: under the root the folder
  \<open>Objects\<close>, in it \<open>Room1\<close> and \<open>Room2\<close> of namespace 2 and a second \<open>Room1\<close> of
  namespace 3, and a variable \<open>Temperature\<close> in each room of namespace 2. Every request
  succeeds.
\<close>

definition example_children :: "(node \<times> node list) list" where
  "example_children =
     [(''i=84'', [''i=85'']),
      (''i=85'', [''ns=2;i=1'', ''ns=2;i=2'', ''ns=3;i=1'']),
      (''ns=2;i=1'', [''ns=2;i=11'']),
      (''ns=2;i=2'', [''ns=2;i=21''])]"

definition example_names :: "(node \<times> nat \<times> string) list" where
  "example_names =
     [(''i=84'', 0, ''Root''), (''i=85'', 0, ''Objects''),
      (''ns=2;i=1'', 2, ''Room1''), (''ns=2;i=2'', 2, ''Room2''), (''ns=3;i=1'', 3, ''Room1''),
      (''ns=2;i=11'', 2, ''Temperature''), (''ns=2;i=21'', 2, ''Temperature'')]"

definition example_paths :: "(string list \<times> node) list" where
  "example_paths =
     [([], ''i=84''),
      ([''0:Objects''], ''i=85''),
      ([''0:Objects'', ''2:Room1''], ''ns=2;i=1''),
      ([''0:Objects'', ''2:Room2''], ''ns=2;i=2''),
      ([''0:Objects'', ''3:Room1''], ''ns=3;i=1''),
      ([''0:Objects'', ''2:Room1'', ''2:Temperature''], ''ns=2;i=11''),
      ([''0:Objects'', ''2:Room2'', ''2:Temperature''], ''ns=2;i=21'')]"

definition example_client :: client where
  "example_client =
     \<lparr>root = ''i=84'',
      get_children = (\<lambda>n. case map_of example_children n of Some c \<Rightarrow> Inr c | None \<Rightarrow> Inr []),
      read_browse_name =
        (\<lambda>n. case map_of example_names n of Some b \<Rightarrow> Inr b | None \<Rightarrow> Inl BadNodeIdUnknown),
      get_child =
        (\<lambda>n p. case p of
                  PathStr _ \<Rightarrow> Inl BadNoMatch
                | PathList l \<Rightarrow>
                    (case map_of example_paths l of Some c \<Rightarrow> Inr c | None \<Rightarrow> Inl BadNoMatch)),
      get_node = (\<lambda>s. Inr s),
      read_value = (\<lambda>n. Inr ''21.5''),
      write_value = (\<lambda>n v. Inr ()),
      read_attributes = (\<lambda>ns. Inr (map (\<lambda>n. ''value of '' @ n) ns)),
      create_subscription = Inr 1,
      subscribe_data_change = (\<lambda>n. Inr 7),
      unsubscribe = (\<lambda>h. Inr ()),
      subscription_delete = Inr (),
      namespace_index = (\<lambda>n. 2),
      call_method = (\<lambda>n m args. Inr ''done'')\<rparr>"

text \<open>
  The children and the browse names of the example as functions, and the same server with
  the second \<open>Room1\<close> in namespace 2 as well, so that two children of \<open>Objects\<close> have one
  browse name.
\<close>

definition example_kids :: "node \<Rightarrow> node list" where
  "example_kids n = (case map_of example_children n of Some c \<Rightarrow> c | None \<Rightarrow> [])"

definition example_bname :: "node \<Rightarrow> nat \<times> string" where
  "example_bname n = (case map_of example_names n of Some b \<Rightarrow> b | None \<Rightarrow> (0, []))"

definition example_client_twins :: client where
  "example_client_twins =
     example_client\<lparr>read_browse_name :=
       (\<lambda>n. if n = ''ns=3;i=1'' then Inr (2, ''Room1'') else read_browse_name example_client n)\<rparr>"

text \<open>The same server while it does not know any node by its path.\<close>

definition example_client_down :: client where
  "example_client_down = example_client\<lparr>get_child := (\<lambda>n p. Inl BadNodeIdUnknown)\<rparr>"

text \<open>
  A converter that sends the values it is given, joined, and nothing when there are none;
  a mapping template for the rooms; a connector configured with it that has not scanned
  yet; and a device with given bound nodes.
\<close>

definition example_converter :: converter where
  "example_converter bound vals = Inr (if vals = [] then None else Some (py_join '','' vals))"

definition example_mapping :: mapping where
  "example_mapping =
     \<lparr>deviceNodePattern = ''Root'' @ escaped_dot @ ''Objects'' @ escaped_dot @ ''Room1'',
      deviceNameExpression = Some ''Room'',
      deviceProfileExpression = None,
      converter_name = None,
      attributes = [],
      timeseries = [(''temperature'', PathList [''Temperature''])],
      attributes_updates = [],
      rpc_methods = [(''reset'', []), (''calibrate'', [''1''])]\<rparr>"

definition example_connector :: connector where
  "example_connector =
     \<lparr>device_nodes = [], subscription = None, enable_subscriptions = True, stopped = False,
      connector_type = ''opcua'', config_mapping = [example_mapping],
      import_module =
        (\<lambda>name. if name = DEFAULT_UPLINK_CONVERTER then Some (\<lambda>cfg. example_converter) else None),
      trace = []\<rparr>"

definition example_device :: "string \<Rightarrow> bound_node list \<Rightarrow> device" where
  "example_device name bound =
     (Device [''0:Objects'', ''2:'' @ name] name
        (make_device_config example_mapping name (InfoFirst ''default''))
        example_converter (Some example_converter))\<lparr>dev_nodes := bound\<rparr>"

text \<open>
  Two requests: the connector's own \<^verbatim>\<open>set\<close> with given parameters, as the gateway passes
  it on, and a call of a method of the device \<open>Room1\<close>.
\<close>

definition example_set_request :: "string \<Rightarrow> content" where
  "example_set_request ps =
     \<lparr>content_data = None, content_device = None,
      content_params = Some (ParamStr ps),
      content_method = Some ''opcua_set'', content_id = Some 1\<rparr>"

definition example_method_request :: "string \<Rightarrow> content" where
  "example_method_request m =
     \<lparr>content_data = Some \<lparr>data_params = None, data_method = Some m, data_id = Some 1\<rparr>,
      content_device = Some ''Room1'', content_params = None, content_method = None,
      content_id = None\<rparr>"

text \<open>The connector once it knows the device \<open>Room1\<close>, with no node bound yet.\<close>

definition example_room_connector :: connector where
  "example_room_connector = example_connector\<lparr>device_nodes := [example_device ''Room1'' []]\<rparr>"

text \<open>
  A binding of the device \<open>Room1\<close> as a successful scan with subscriptions leaves it:
  resolved, valid and subscribed with handle 7. And the server while the connection to
  it is lost.
\<close>

definition example_binding :: binding where
  "example_binding =
     \<lparr>node_path = PathList [''0:Objects'', ''2:Room1'', ''Temperature''],
      node_key = ''temperature'',
      node_qualified_path = Some [''0:Objects'', ''2:Room1'', ''2:Temperature''],
      node_valid = Some True, node_sub_on = True, node_subscription = Some 7,
      node_id = Some ''ns=2;i=11''\<rparr>"



subsection \<open>Torn-down devices\<close>







subsection \<open>The slices of a poll\<close>

text \<open>
  The specification's words for what a poll hands to the converter of the \<open>i\<close>-th device
  (counted from 0): the device's nodes and the contiguous slice of the values read, as
  long as the device has nodes, starting at the offset \<open>c\<close> of the first device plus the
  number of nodes of the devices before it.
\<close>

definition device_slice ::
  "val list \<Rightarrow> device list \<Rightarrow> nat \<Rightarrow> nat \<Rightarrow> string \<times> bound_node list \<times> val list"
where
  "device_slice vals devs c i =
     (dev_name (devs ! i), dev_nodes (devs ! i),
      take (length (dev_nodes (devs ! i)))
        (drop (c + sum_list (map (\<lambda>d. length (dev_nodes d)) (take i devs))) vals))"

section \<open>Properties\<close>

subsection \<open>Backoff\<close>









subsection \<open>Paths that are already qualified\<close>

lemma py_split_not_Nil: "py_split sep s \<noteq> []"
  by (induction sep s rule: py_split.induct) (auto split: list.splits)

lemma length_py_split_char:
  "length (py_split [c] s) = Suc (length (filter (\<lambda>x. x = c) s))"
proof (induction s)
  case Nil
  then show ?case by simp
next
  case (Cons x xs)
  then show ?case using py_split_not_Nil [of "[c]" xs]
    by (cases "py_split [c] xs") auto
qed

lemma split_colon_short: "length (py_split '':'' u) < 2 \<longleftrightarrow> CHR '':'' \<notin> set u"
  by (auto simp add: length_py_split_char filter_empty_conv)

lemma u_node_count_qualified:
  "\<forall>u \<in> set p. CHR '':'' \<in> set u \<Longrightarrow> u_node_count p = 0"
  by (simp add: u_node_count_def split_colon_short)

text \<open>
  C10. For a path (a list of segments, or a string, which is split at \<^verbatim>\<open>'\\.'\<close> and so
  never gives an empty list) whose segments all contain \<^verbatim>\<open>':'\<close>,
  \<^verbatim>\<open>find_node_name_space_index\<close> counts 0 unresolved segments, takes \<^verbatim>\<open>path[:-0]\<close>, the empty
  list, as the resolved prefix and the empty list as the unresolved rest, and raises:
  whatever \<^verbatim>\<open>get_child([])\<close> does, the call does not return, and when \<^verbatim>\<open>get_child([])\<close>
  returns a node the exception is the \<^verbatim>\<open>AssertionError\<close> of \<^verbatim>\<open>__find_nodes\<close>, called with an
  empty segment list.
\<close>

theorem find_node_name_space_index_qualified_raises:
  assumes "path_segments pth \<noteq> []"
      and "\<forall>u \<in> set (path_segments pth). CHR '':'' \<in> set u"
  shows "u_node_count (path_segments pth) = 0 \<and>
         resolved (path_segments pth) = [] \<and>
         unresolved (path_segments pth) = [] \<and>
         (\<exists>e. find_node_name_space_index cl pth = Inl e) \<and>
         (\<forall>parent_node. get_child cl (root cl) (PathList []) = Inr parent_node \<longrightarrow>
            find_node_name_space_index cl pth = Inl AssertionError)"
proof -
  from assms(2) have u: "u_node_count (path_segments pth) = 0"
    by (rule u_node_count_qualified)
  then have r: "resolved (path_segments pth) = []"
    and un: "unresolved (path_segments pth) = []"
    by (simp_all add: resolved_def unresolved_def py_slice_to_def py_slice_from_def)
  have "\<exists>e. find_node_name_space_index cl pth = Inl e"
    by (cases "get_child cl (root cl) (PathList [])")
       (simp_all add: find_node_name_space_index_def r un)
  moreover have "find_node_name_space_index cl pth = Inl AssertionError"
    if "get_child cl (root cl) (PathList []) = Inr parent_node" for parent_node
    using that by (simp add: find_node_name_space_index_def r un)
  ultimately show ?thesis using u r un by blast
qed

theorem find_node_name_space_index_qualified_raises_witness:
  "find_node_name_space_index example_client (PathList [''0:Objects'', ''2:Room1'']) =
     Inl AssertionError \<and>
   get_child example_client (root example_client) (PathList [''0:Objects'', ''2:Room1'']) =
     Inr ''ns=2;i=1''"
proof -
  let ?p = "PathList [''0:Objects'', ''2:Room1'']"
  have ne: "path_segments ?p \<noteq> []" by (simp add: path_segments_def)
  have q: "\<forall>u \<in> set (path_segments ?p). CHR '':'' \<in> set u" by (simp add: path_segments_def)
  have g: "get_child example_client (root example_client) (PathList []) = Inr ''i=84''"
    by (simp add: example_client_def example_paths_def)
  from find_node_name_space_index_qualified_raises [OF ne q, of example_client] g
  have "find_node_name_space_index example_client ?p = Inl AssertionError" by blast
  moreover have "get_child example_client (root example_client) ?p = Inr ''ns=2;i=1''"
    by (simp add: example_client_def example_paths_def)
  ultimately show ?thesis by simp
qed

subsection \<open>Matching a segment against the children of a node\<close>

lemma py_str_nat_small: "n < 10 \<Longrightarrow> py_str_nat n = [digit_char n]"
  by (subst py_str_nat.simps) simp

lemma py_str_nat_big:
  "\<not> n < 10 \<Longrightarrow> py_str_nat n = py_str_nat (n div 10) @ [digit_char (n mod 10)]"
  by (subst py_str_nat.simps) simp

lemma special_not_alnum: "re_special c \<Longrightarrow> \<not> is_alnum c"
  by (auto simp: re_special_def is_alnum_def is_digit_def)

lemma meta_special: "re_meta c \<Longrightarrow> re_special c"
  by (auto simp: re_meta_def re_special_def)

lemma not_starred_escape: "\<not> starred (re_escape cs)"
  by (cases cs) (auto simp: starred_def re_special_def)

lemma after_star_escape: "after_star (re_escape cs) = re_escape cs"
  by (simp add: after_star_def not_starred_escape)

lemma re_parse_escaped_char:
  "\<not> is_alnum e \<Longrightarrow>
   re_parse (CHR 0x5C # e # cs) = map_option (Cons (Lit e, starred cs)) (re_parse (after_star cs))"
  by (subst re_parse.simps) simp

lemma re_parse_plain_char:
  "c \<noteq> CHR 0x5C \<Longrightarrow> \<not> re_meta c \<Longrightarrow> c \<noteq> CHR ''.'' \<Longrightarrow>
   re_parse (c # cs) = map_option (Cons (Lit c, starred cs)) (re_parse (after_star cs))"
  by (subst re_parse.simps) simp

lemma re_parse_escape: "re_parse (re_escape s) = Some (map (\<lambda>c. (Lit c, False)) s)"
proof (induction s)
  case Nil
  then show ?case by simp
next
  case (Cons c cs)
  show ?case
  proof (cases "re_special c")
    case True
    then have "re_parse (re_escape (c # cs)) = re_parse (CHR 0x5C # c # re_escape cs)" by simp
    also have "\<dots> = map_option (Cons (Lit c, starred (re_escape cs)))
                          (re_parse (after_star (re_escape cs)))"
      by (rule re_parse_escaped_char [OF special_not_alnum [OF True]])
    also have "\<dots> = map_option (Cons (Lit c, False)) (re_parse (re_escape cs))"
      using not_starred_escape [of cs] by (simp only: after_star_escape)
    finally show ?thesis using Cons by simp
  next
    case False
    then have "c \<noteq> CHR 0x5C" "c \<noteq> CHR ''.''"
      by (simp_all add: re_special_def)
    moreover from False have "\<not> re_meta c" using meta_special by blast
    ultimately have c: "c \<noteq> CHR 0x5C" "c \<noteq> CHR ''.''" "\<not> re_meta c" by simp_all
    from False have "re_parse (re_escape (c # cs)) = re_parse (c # re_escape cs)" by simp
    also have "\<dots> = map_option (Cons (Lit c, starred (re_escape cs)))
                          (re_parse (after_star (re_escape cs)))"
      by (rule re_parse_plain_char [OF c(1) c(3) c(2)])
    also have "\<dots> = map_option (Cons (Lit c, False)) (re_parse (re_escape cs))"
      using not_starred_escape [of cs] by (simp only: after_star_escape)
    finally show ?thesis using Cons by simp
  qed
qed

lemma re_match_literal: "re_match (map (\<lambda>c. (Lit c, False)) s) name \<longleftrightarrow> name = s"
proof (induction s arbitrary: name)
  case Nil
  then show ?case by simp
next
  case (Cons c cs)
  then show ?case by (cases name) auto
qed

lemma re_fullmatch_escape: "re_fullmatch (re_escape s) name = Some (name = s)"
  by (simp add: re_fullmatch_def re_parse_escape re_match_literal)

lemma child_matches_literal:
  "child_matches segment name = Inr (name = segment \<or> last (py_split '':'' segment) = name)"
  by (simp add: child_matches_def re_fullmatch_escape)

lemma digit_char_inj: "a < 10 \<Longrightarrow> b < 10 \<Longrightarrow> digit_char a = digit_char b \<Longrightarrow> a = b"
proof -
  assume a: "a < 10" and b: "b < 10" and eq: "digit_char a = digit_char b"
  have d: "distinct ''0123456789''" by simp
  from a b have "a < length ''0123456789''" "b < length ''0123456789''" by simp_all
  with d eq show "a = b" unfolding digit_char_def by (simp only: nth_eq_iff_index_eq)
qed

lemma digit_char_not_colon: "d < 10 \<Longrightarrow> digit_char d \<noteq> CHR '':''"
proof -
  assume "d < 10"
  then have "d < length ''0123456789''" by simp
  then have "''0123456789'' ! d \<in> set ''0123456789''" by (rule nth_mem)
  then show ?thesis unfolding digit_char_def by auto
qed

lemma py_str_nat_not_Nil: "py_str_nat n \<noteq> []"
  by (cases "n < 10") (simp_all add: py_str_nat_small py_str_nat_big)

lemma py_str_nat_no_colon: "CHR '':'' \<notin> set (py_str_nat n)"
proof (induction n rule: py_str_nat.induct)
  case (1 n)
  show ?case
  proof (cases "n < 10")
    case True
    then show ?thesis using digit_char_not_colon [of n] by (simp add: py_str_nat_small)
  next
    case False
    with 1 digit_char_not_colon [of "n mod 10"] show ?thesis
      by (simp add: py_str_nat_big)
  qed
qed

lemma py_str_nat_inj: "py_str_nat a = py_str_nat b \<Longrightarrow> a = b"
proof (induction a arbitrary: b rule: py_str_nat.induct)
  case (1 a)
  show ?case
  proof (cases "a < 10")
    case True
    show ?thesis
    proof (cases "b < 10")
      case b: True
      with True "1.prems" show ?thesis
        by (simp add: py_str_nat_small digit_char_inj)
    next
      case b: False
      with True "1.prems" py_str_nat_not_Nil [of "b div 10"] show ?thesis
        by (simp add: py_str_nat_small py_str_nat_big)
    qed
  next
    case False
    show ?thesis
    proof (cases "b < 10")
      case b: True
      with False "1.prems" py_str_nat_not_Nil [of "a div 10"] show ?thesis
        by (simp add: py_str_nat_small py_str_nat_big)
    next
      case b: False
      with False "1.prems" have eq: "py_str_nat (a div 10) = py_str_nat (b div 10)"
        and d: "digit_char (a mod 10) = digit_char (b mod 10)"
        by (simp_all add: py_str_nat_big)
      from "1.IH" [OF False eq] have "a div 10 = b div 10" .
      moreover from d have "a mod 10 = b mod 10" by (simp add: digit_char_inj)
      ultimately show ?thesis by (metis div_mult_mod_eq)
    qed
  qed
qed

lemma append_sep_eq:
  "c \<notin> set u \<Longrightarrow> c \<notin> set v \<Longrightarrow> u @ c # x = v @ c # y \<Longrightarrow> u = v \<and> x = y"
proof (induction u arbitrary: v)
  case Nil
  then show ?case by (cases v) auto
next
  case (Cons a u)
  then show ?case by (cases v) auto
qed

lemma qualified_name_inj:
  "qualified_name ns name = qualified_name ns' name' \<Longrightarrow> ns = ns' \<and> name = name'"
  unfolding qualified_name_def
  using append_sep_eq [OF py_str_nat_no_colon py_str_nat_no_colon, of ns name ns' name']
    py_str_nat_inj by auto

lemma advance_append:
  "advance kids bname segment (a @ b) = advance kids bname segment a @ advance kids bname segment b"
  by (simp add: advance_def)

lemma advance_Nil: "advance kids bname segment [] = []"
  by (simp add: advance_def)

lemma frontier_Nil: "frontier kids bname segments [] = []"
  by (induction segments) (simp_all add: frontier_def advance_Nil)

lemma frontier_Cons:
  "frontier kids bname (segment # rest) front =
     frontier kids bname rest (advance kids bname segment front)"
  by (simp add: frontier_def)

lemma frontier_append:
  "frontier kids bname segments (a @ b) = frontier kids bname segments a @ frontier kids bname segments b"
  by (induction segments arbitrary: a b) (simp_all add: frontier_def advance_append)

lemma frontier_snoc:
  "frontier kids bname (pre @ [segment]) front =
     advance kids bname segment (frontier kids bname pre front)"
  by (simp add: frontier_def)

lemma advance_in:
  assumes "\<forall>n\<in>S. set (kids n) \<subseteq> S" "snd ` set front \<subseteq> S"
  shows "snd ` set (advance kids bname segment front) \<subseteq> S"
  using assms by (fastforce simp: advance_def matching_children_def)

lemma frontier_in:
  assumes "\<forall>n\<in>S. set (kids n) \<subseteq> S"
  shows "snd ` set front \<subseteq> S \<Longrightarrow> snd ` set (frontier kids bname segments front) \<subseteq> S"
proof (induction segments arbitrary: front)
  case Nil
  then show ?case by (simp add: frontier_def)
next
  case (Cons s segments)
  from Cons.IH [OF advance_in [OF assms Cons.prems]] show ?case
    by (simp add: frontier_Cons)
qed

lemma find_nodes_frontier_aux:
  assumes closed: "\<forall>n\<in>S. get_children cl n = Inr (kids n) \<and> set (kids n) \<subseteq> S \<and>
                     (\<forall>c\<in>set (kids n). read_browse_name cl c = Inr (bname c))"
  shows "(segs \<noteq> [] \<longrightarrow> parent \<in> S \<longrightarrow>
            priv_find_nodes cl segs parent nodes =
              Inr (map fst (frontier kids bname segs [(nodes, parent)])))"
    and "(set children \<subseteq> S \<longrightarrow> (\<forall>c\<in>set children. read_browse_name cl c = Inr (bname c)) \<longrightarrow>
            find_nodes_children cl segment rest nodes' children =
              Inr (map fst (frontier kids bname rest
                     (map (\<lambda>c. (child_path bname nodes' c, c))
                        (filter (\<lambda>c. literal_match segment (snd (bname c))) children)))))"
  using closed
proof (induction cl segs parent nodes and cl segment rest nodes' children
       rule: priv_find_nodes_find_nodes_children.induct)
  case (1 cl current_parent_node nodes)
  then show ?case by simp
next
  case (2 cl segment rest current_parent_node nodes)
  note closed = "2.prems"
  show ?case
  proof (intro impI)
    assume "current_parent_node \<in> S"
    with closed have g: "get_children cl current_parent_node = Inr (kids current_parent_node)"
      and sub: "set (kids current_parent_node) \<subseteq> S"
      and rd: "\<forall>c\<in>set (kids current_parent_node). read_browse_name cl c = Inr (bname c)"
      by auto
    from "2.IH" [OF g closed] sub rd g show "priv_find_nodes cl (segment # rest) current_parent_node nodes =
        Inr (map fst (frontier kids bname (segment # rest) [(nodes, current_parent_node)]))"
      by (simp add: frontier_Cons advance_def matching_children_def)
  qed
next
  case (3 cl segment rest nodes)
  then show ?case by (simp add: frontier_Nil)
next
  case (4 cl segment rest nodes node others)
  note closed = "4.prems"
  show ?case
  proof (intro impI)
    assume sub: "set (node # others) \<subseteq> S"
      and rd: "\<forall>c\<in>set (node # others). read_browse_name cl c = Inr (bname c)"
    obtain ns name where bn: "bname node = (ns, name)" by (cases "bname node")
    with rd have r: "read_browse_name cl node = Inr (ns, name)" by simp
    have cm: "child_matches segment name = Inr (literal_match segment name)"
      by (auto simp: child_matches_literal literal_match_def)
    from sub rd have sub': "set others \<subseteq> S"
      and rd': "\<forall>c\<in>set others. read_browse_name cl c = Inr (bname c)" by auto
    show "find_nodes_children cl segment rest nodes (node # others) =
        Inr (map fst (frontier kids bname rest
               (map (\<lambda>c. (child_path bname nodes c, c))
                  (filter (\<lambda>c. literal_match segment (snd (bname c))) (node # others)))))"
    proof (cases "literal_match segment name")
      case False
      with cm have cmF: "child_matches segment name = Inr False" by simp
      from "4.IH"(3) [OF r refl cmF refl closed] False sub' rd' r cmF bn show ?thesis by simp
    next
      case True
      with cm have cmT: "child_matches segment name = Inr True" by simp
      have found: "\<exists>found. (if rest = [] then Inr [nodes @ [qualified_name ns name]]
                      else priv_find_nodes cl rest node (nodes @ [qualified_name ns name])) = Inr found"
      proof (cases "rest = []")
        case True
        then show ?thesis by simp
      next
        case False
        from "4.IH"(1) [OF r refl cmT refl refl False closed] False sub show ?thesis by simp
      qed
      then obtain found where found: "(if rest = [] then Inr [nodes @ [qualified_name ns name]]
                      else priv_find_nodes cl rest node (nodes @ [qualified_name ns name])) = Inr found" ..
      have others: "find_nodes_children cl segment rest nodes others =
          Inr (map fst (frontier kids bname rest
               (map (\<lambda>c. (child_path bname nodes c, c))
                  (filter (\<lambda>c. literal_match segment (snd (bname c))) others))))"
        using "4.IH"(2) [OF r refl cmT refl refl found closed] sub' rd' by simp
      have node: "node \<in> S" using sub by simp
      have cp: "child_path bname nodes node = nodes @ [qualified_name ns name]"
        by (simp add: child_path_def bn)
      show ?thesis
      proof (cases "rest = []")
        case True
        with others r cmT \<open>literal_match segment name\<close> bn cp show ?thesis
          by (simp add: frontier_def)
      next
        case False
        have "priv_find_nodes cl rest node (nodes @ [qualified_name ns name]) =
            Inr (map fst (frontier kids bname rest [(nodes @ [qualified_name ns name], node)]))"
          using "4.IH"(1) [OF r refl cmT refl refl False closed] False node
          by simp
        moreover have "frontier kids bname rest
            ((nodes @ [qualified_name ns name], node) #
              map (\<lambda>c. (child_path bname nodes c, c))
                (filter (\<lambda>c. literal_match segment (snd (bname c))) others)) =
            frontier kids bname rest [(nodes @ [qualified_name ns name], node)] @
            frontier kids bname rest
              (map (\<lambda>c. (child_path bname nodes c, c))
                (filter (\<lambda>c. literal_match segment (snd (bname c))) others))"
          using frontier_append [of kids bname rest "[(nodes @ [qualified_name ns name], node)]"
              "map (\<lambda>c. (child_path bname nodes c, c))
                (filter (\<lambda>c. literal_match segment (snd (bname c))) others)"]
          by simp
        ultimately show ?thesis
          using others r cmT \<open>literal_match segment name\<close> bn cp False by simp
      qed
    qed
  qed
qed

lemma child_path_inj:
  "child_path bname p c = child_path bname p' c' \<Longrightarrow> p = p' \<and> bname c = bname c'"
  by (auto simp: child_path_def prod_eq_iff dest: qualified_name_inj)

lemma fst_advance:
  "map fst (advance kids bname segment front) =
     concat (map (\<lambda>(p, n). map (child_path bname p) (matching_children kids bname segment n)) front)"
  by (induction front) (auto simp: advance_def comp_def)

lemma distinct_child_paths:
  assumes "distinct (map bname cs)"
  shows "distinct (map (child_path bname p) cs)"
    and "distinct (map last (map (child_path bname p) cs))"
proof -
  have "inj_on (child_path bname p) (set cs)"
    using assms by (auto intro!: inj_onI dest!: child_path_inj simp: distinct_map inj_on_def)
  moreover from assms have "distinct cs" by (simp only: distinct_map)
  ultimately show "distinct (map (child_path bname p) cs)" by (simp add: distinct_map)
  have "inj_on (\<lambda>c. qualified_name (fst (bname c)) (snd (bname c))) (set cs)"
    using assms by (auto intro!: inj_onI dest!: qualified_name_inj simp: distinct_map inj_on_def prod_eq_iff)
  with \<open>distinct cs\<close> show "distinct (map last (map (child_path bname p) cs))"
    by (simp add: distinct_map child_path_def comp_def)
qed

lemma advance_distinct:
  "distinct (map fst front) \<Longrightarrow>
   \<forall>(p, n)\<in>set front. distinct (map bname (matching_children kids bname segment n)) \<Longrightarrow>
   distinct (map fst (advance kids bname segment front))"
proof (induction front)
  case Nil
  then show ?case by (simp add: advance_def)
next
  case (Cons x front)
  obtain p n where x: "x = (p, n)" by (cases x)
  have split: "map fst (advance kids bname segment (x # front)) =
      map (child_path bname p) (matching_children kids bname segment n) @
      map fst (advance kids bname segment front)"
    by (simp add: fst_advance x)
  have d1: "distinct (map (child_path bname p) (matching_children kids bname segment n))"
    using Cons.prems(2) x by (auto intro: distinct_child_paths(1))
  have d2: "distinct (map fst (advance kids bname segment front))"
    using Cons.IH Cons.prems by simp
  have disj: "set (map (child_path bname p) (matching_children kids bname segment n)) \<inter>
      set (map fst (advance kids bname segment front)) = {}"
  proof (rule ccontr)
    assume "\<not> ?thesis"
    then obtain q where q1: "q \<in> set (map (child_path bname p) (matching_children kids bname segment n))"
      and q2: "q \<in> set (map fst (advance kids bname segment front))" by auto
    from q1 obtain c where c: "q = child_path bname p c" by auto
    from q2 obtain p' n' c' where p': "(p', n') \<in> set front" and c': "q = child_path bname p' c'"
      by (auto simp: fst_advance)
    from c c' have "p = p'" by (auto dest: child_path_inj)
    with p' Cons.prems(1) x show False by force
  qed
  from d1 d2 disj show ?case unfolding split by simp
qed

lemma frontier_distinct:
  assumes "\<forall>n\<in>S. set (kids n) \<subseteq> S" and "\<forall>n\<in>S. distinct (map bname (kids n))"
  shows "snd ` set front \<subseteq> S \<Longrightarrow> distinct (map fst front) \<Longrightarrow>
         distinct (map fst (frontier kids bname segments front))"
proof (induction segments arbitrary: front)
  case Nil
  then show ?case by (simp add: frontier_def)
next
  case (Cons s segments)
  have "\<forall>(p, n)\<in>set front. distinct (map bname (matching_children kids bname s n))"
    using assms(2) Cons.prems(1) by (auto simp: matching_children_def distinct_map_filter)
  from Cons.IH [OF advance_in [OF assms(1) Cons.prems(1)] advance_distinct [OF Cons.prems(2) this]]
  show ?case by (simp add: frontier_Cons)
qed

text \<open>
  C1, as amended. The segment is escaped before it is used as a regular expression, so a
  child matches when its name is the segment itself, or the segment with its namespace
  qualifier stripped (the text after the last \<^verbatim>\<open>':'\<close>). \<^verbatim>\<open>find_nodes\<close> splits the pattern at
  \<^verbatim>\<open>'\\.'\<close>, starts at the parent it is given, or at the root when it is given none, in
  which case a first segment that is \<^verbatim>\<open>root\<close> in any letter case is dropped, and descends
  one level per segment. Let \<open>S\<close> be a set of nodes that holds the start node and the
  children of its nodes, in which browsing succeeds, and let the segments be \<open>pre\<close> followed
  by a last \<open>segment\<close>. Then \<^verbatim>\<open>find_nodes\<close> returns, for each node of the frontier of \<open>pre\<close>
  in order, one path for each child of that node whose name matches \<open>segment\<close>, in the order
  of the children: the path of the frontier node followed by \<^verbatim>\<open>'<namespaceIndex>:<name>'\<close>
  of the child. When the frontier is a single node with \<open>k\<close> matching children, exactly \<open>k\<close>
  paths are returned. The paths below one frontier node, and their last segments, are
  pairwise distinct when the (namespaceIndex, name) pairs of its matching children are; and
  all the paths returned are pairwise distinct when no node of \<open>S\<close> has two children with the
  same (namespaceIndex, name) pair.
\<close>

theorem find_nodes_paths:
  assumes "\<forall>n\<in>S. get_children cl n = Inr (kids n) \<and> set (kids n) \<subseteq> S \<and>
             (\<forall>c\<in>set (kids n). read_browse_name cl c = Inr (bname c))"
      and "start = (case current_parent_node of None \<Rightarrow> root cl | Some parent \<Rightarrow> parent)"
      and "start \<in> S"
      and "pre @ [segment] =
             (if current_parent_node = None \<and> py_lower (hd (py_split escaped_dot node_pattern)) = ''root''
              then tl (py_split escaped_dot node_pattern) else py_split escaped_dot node_pattern)"
  shows "\<exists>paths.
           find_nodes cl node_pattern current_parent_node nodes = Inr paths \<and>
           paths = concat (map (\<lambda>(p, n). map (child_path bname p) (matching_children kids bname segment n))
                     (frontier kids bname pre [(nodes, start)])) \<and>
           (\<forall>p n. frontier kids bname pre [(nodes, start)] = [(p, n)] \<longrightarrow>
              paths = map (child_path bname p) (matching_children kids bname segment n) \<and>
              length paths = length (matching_children kids bname segment n)) \<and>
           (\<forall>(p, n)\<in>set (frontier kids bname pre [(nodes, start)]).
              distinct (map bname (matching_children kids bname segment n)) \<longrightarrow>
              distinct (map (child_path bname p) (matching_children kids bname segment n)) \<and>
              distinct (map last (map (child_path bname p) (matching_children kids bname segment n)))) \<and>
           ((\<forall>n\<in>S. distinct (map bname (kids n))) \<longrightarrow> distinct paths)"
proof -
  let ?segs = "pre @ [segment]"
  let ?front = "frontier kids bname pre [(nodes, start)]"
  let ?paths = "concat (map (\<lambda>(p, n). map (child_path bname p) (matching_children kids bname segment n)) ?front)"
  have kids: "\<forall>n\<in>S. set (kids n) \<subseteq> S" using assms(1) by blast
  have "find_nodes cl node_pattern current_parent_node nodes = priv_find_nodes cl ?segs start nodes"
    using assms(2,4) py_split_not_Nil [of escaped_dot node_pattern]
    by (cases current_parent_node) (simp_all add: find_nodes_def Let_def)
  also have "\<dots> = Inr (map fst (frontier kids bname ?segs [(nodes, start)]))"
    using find_nodes_frontier_aux(1) [OF assms(1), of ?segs start nodes] assms(3) by simp
  also have "map fst (frontier kids bname ?segs [(nodes, start)]) = ?paths"
    by (simp add: frontier_snoc fst_advance)
  finally have found: "find_nodes cl node_pattern current_parent_node nodes = Inr ?paths" .
  have single: "\<forall>p n. ?front = [(p, n)] \<longrightarrow>
      ?paths = map (child_path bname p) (matching_children kids bname segment n) \<and>
      length ?paths = length (matching_children kids bname segment n)"
    by simp
  have local: "\<forall>(p, n)\<in>set ?front.
      distinct (map bname (matching_children kids bname segment n)) \<longrightarrow>
      distinct (map (child_path bname p) (matching_children kids bname segment n)) \<and>
      distinct (map last (map (child_path bname p) (matching_children kids bname segment n)))"
    using distinct_child_paths by blast
  have global: "distinct ?paths" if "\<forall>n\<in>S. distinct (map bname (kids n))"
  proof -
    have "distinct (map fst (frontier kids bname ?segs [(nodes, start)]))"
      using frontier_distinct [OF kids that, of "[(nodes, start)]" ?segs] assms(3) by simp
    then show ?thesis by (simp add: frontier_snoc fst_advance)
  qed
  from found single local global show ?thesis by blast
qed

theorem find_nodes_paths_witness:
  "find_nodes example_client (''Root'' @ escaped_dot @ ''Objects'' @ escaped_dot @ ''Room1'') None [] =
     Inr [[''0:Objects'', ''2:Room1''], [''0:Objects'', ''3:Room1'']] \<and>
   frontier example_kids example_bname [''Objects''] [([], ''i=84'')] = [([''0:Objects''], ''i=85'')] \<and>
   matching_children example_kids example_bname ''Room1'' ''i=85'' = [''ns=2;i=1'', ''ns=3;i=1'']"
proof -
  let ?S = "set (map fst example_names)"
  have closed: "\<forall>n\<in>?S. get_children example_client n = Inr (example_kids n) \<and>
      set (example_kids n) \<subseteq> ?S \<and>
      (\<forall>c\<in>set (example_kids n). read_browse_name example_client c = Inr (example_bname c))"
    by (auto simp add: example_client_def example_kids_def example_bname_def example_names_def
        example_children_def)
  have start: "''i=84'' = (case None of None \<Rightarrow> root example_client | Some parent \<Rightarrow> parent)"
    by (simp add: example_client_def)
  have inS: "''i=84'' \<in> ?S" by (simp add: example_names_def)
  have segs: "[''Objects''] @ [''Room1''] =
      (if (None :: node option) = None \<and>
          py_lower (hd (py_split escaped_dot (''Root'' @ escaped_dot @ ''Objects'' @ escaped_dot @ ''Room1''))) = ''root''
       then tl (py_split escaped_dot (''Root'' @ escaped_dot @ ''Objects'' @ escaped_dot @ ''Room1''))
       else py_split escaped_dot (''Root'' @ escaped_dot @ ''Objects'' @ escaped_dot @ ''Room1''))"
    by (simp add: escaped_dot_def py_lower_def lower_char_def)
  have q: "qualified_name 0 ''Objects'' = ''0:Objects''" "qualified_name 2 ''Room1'' = ''2:Room1''"
    "qualified_name 3 ''Room1'' = ''3:Room1''"
    by (simp_all add: qualified_name_def py_str_nat_small digit_char_def)
  have front: "frontier example_kids example_bname [''Objects''] [([], ''i=84'')] = [([''0:Objects''], ''i=85'')]"
    by (simp add: frontier_def advance_def matching_children_def child_path_def literal_match_def
        example_kids_def example_bname_def example_children_def example_names_def q)
  have m: "matching_children example_kids example_bname ''Room1'' ''i=85'' = [''ns=2;i=1'', ''ns=3;i=1'']"
    by (simp add: matching_children_def literal_match_def
        example_kids_def example_bname_def example_children_def example_names_def)
  have cp: "map (child_path example_bname [''0:Objects'']) [''ns=2;i=1'', ''ns=3;i=1''] =
      [[''0:Objects'', ''2:Room1''], [''0:Objects'', ''3:Room1'']]"
    by (simp add: child_path_def example_bname_def example_names_def q)
  from find_nodes_paths [OF closed start inS segs, of "[]"]
  have "find_nodes example_client (''Root'' @ escaped_dot @ ''Objects'' @ escaped_dot @ ''Room1'') None [] =
      Inr (concat (map (\<lambda>(p, n). map (child_path example_bname p)
                                   (matching_children example_kids example_bname ''Room1'' n))
             (frontier example_kids example_bname [''Objects''] [([], ''i=84'')])))"
    by blast
  also have "\<dots> = Inr [[''0:Objects'', ''2:Room1''], [''0:Objects'', ''3:Room1'']]"
    using cp by (simp add: front m)
  finally show ?thesis using front m by simp
qed

text \<open>
  C1 as stated fails. Read as a regular expression, the segment \<^verbatim>\<open>Room.*\<close> matches the
  names of all three children of \<open>Objects\<close> in the example, but \<^verbatim>\<open>find_nodes\<close> returns no
  path: none of the children is called \<^verbatim>\<open>Room.*\<close>. And where two of the children have the
  browse name \<open>Room1\<close> of namespace 2, the segment \<^verbatim>\<open>Room1\<close> matches two distinct children
  and the two paths returned are equal.
\<close>

theorem find_nodes_counterexample:
  "length (filter (\<lambda>bn. spec_matches ''Room.*'' (snd bn))
      [(2::nat, ''Room1''), (2, ''Room2''), (3, ''Room1'')]) = 3 \<and>
   map (read_browse_name example_client) [''ns=2;i=1'', ''ns=2;i=2'', ''ns=3;i=1''] =
     map Inr [(2, ''Room1''), (2, ''Room2''), (3, ''Room1'')] \<and>
   get_children example_client ''i=85'' = Inr [''ns=2;i=1'', ''ns=2;i=2'', ''ns=3;i=1''] \<and>
   find_nodes example_client ''Room.*'' (Some ''i=85'') [''0:Objects''] = Inr [] \<and>
   get_children example_client_twins ''i=85'' = Inr [''ns=2;i=1'', ''ns=2;i=2'', ''ns=3;i=1''] \<and>
   map (read_browse_name example_client_twins) [''ns=2;i=1'', ''ns=2;i=2'', ''ns=3;i=1''] =
     map Inr [(2, ''Room1''), (2, ''Room2''), (2, ''Room1'')] \<and>
   find_nodes example_client_twins ''Room1'' (Some ''i=85'') [''0:Objects''] =
     Inr [[''0:Objects'', ''2:Room1''], [''0:Objects'', ''2:Room1'']]"
proof -
  have m: "re_fullmatch ''Room.*'' ''Room1'' = Some True" "re_fullmatch ''Room.*'' ''Room2'' = Some True"
    by (simp_all add: re_fullmatch_def re_meta_def starred_def after_star_def)
  have k: "length (filter (\<lambda>bn. spec_matches ''Room.*'' (snd bn))
      [(2::nat, ''Room1''), (2, ''Room2''), (3, ''Room1'')]) = 3"
    by (simp add: spec_matches_def m)
  have names: "map (read_browse_name example_client) [''ns=2;i=1'', ''ns=2;i=2'', ''ns=3;i=1''] =
      map Inr [(2, ''Room1''), (2, ''Room2''), (3, ''Room1'')]"
    by (simp add: example_client_def example_names_def)
  have children: "get_children example_client ''i=85'' = Inr [''ns=2;i=1'', ''ns=2;i=2'', ''ns=3;i=1'']"
    by (simp add: example_client_def example_children_def)
  have none: "find_nodes example_client ''Room.*'' (Some ''i=85'') [''0:Objects''] = Inr []"
    using names children
    by (simp add: find_nodes_def escaped_dot_def child_matches_literal)
  have names': "map (read_browse_name example_client_twins) [''ns=2;i=1'', ''ns=2;i=2'', ''ns=3;i=1''] =
      map Inr [(2, ''Room1''), (2, ''Room2''), (2, ''Room1'')]"
    by (simp add: example_client_twins_def example_client_def example_names_def)
  have children': "get_children example_client_twins ''i=85'' = Inr [''ns=2;i=1'', ''ns=2;i=2'', ''ns=3;i=1'']"
    by (simp add: example_client_twins_def example_client_def example_children_def)
  have twins: "find_nodes example_client_twins ''Room1'' (Some ''i=85'') [''0:Objects''] =
     Inr [[''0:Objects'', ''2:Room1''], [''0:Objects'', ''2:Room1'']]"
    using names' children'
    by (simp add: find_nodes_def escaped_dot_def child_matches_literal qualified_name_def
        py_str_nat_small digit_char_def)
  from k names children none children' names' twins show ?thesis by simp
qed

subsection \<open>Traces\<close>

lemma trace_emit [simp]: "trace (emit ev st) = trace st @ [ev]"
  by (simp add: emit_def)

lemma emit_fields [simp]:
  "device_nodes (emit ev st) = device_nodes st"
  "subscription (emit ev st) = subscription st"
  "enable_subscriptions (emit ev st) = enable_subscriptions st"
  "stopped (emit ev st) = stopped st"
  "connector_type (emit ev st) = connector_type st"
  "config_mapping (emit ev st) = config_mapping st"
  "import_module (emit ev st) = import_module st"
  by (simp_all add: emit_def)

lemma converts_append [simp]: "converts (xs @ ys) = converts xs @ converts ys"
  by (induction xs rule: converts.induct) simp_all

lemma reads_append [simp]: "reads (xs @ ys) = reads xs @ reads ys"
  by (induction xs rule: reads.induct) simp_all

lemma poll_devices_trace:
  assumes "\<forall>dev \<in> set devs. \<forall>vs. \<exists>d. dev_converter dev (dev_nodes dev) vs = Inr d"
  shows "fst (poll_devices vals devs c st) = Inr () \<and>
         reads (trace (snd (poll_devices vals devs c st))) = reads (trace st) \<and>
         converts (trace (snd (poll_devices vals devs c st))) =
           converts (trace st) @ map (device_slice vals devs c) [0..<length devs]"
  using assms
proof (induction devs arbitrary: c st)
  case Nil
  then show ?case by simp
next
  case (Cons dev rest)
  let ?n = "length (dev_nodes dev)"
  let ?vs = "take ?n (drop c vals)"
  let ?st1 = "emit (Convert (dev_name dev) (dev_nodes dev) ?vs) st"
  from Cons.prems have "\<exists>d. dev_converter dev (dev_nodes dev) ?vs = Inr d" by simp
  then obtain d where d: "dev_converter dev (dev_nodes dev) ?vs = Inr d" ..
  from Cons.prems have rest: "\<forall>dev \<in> set rest. \<forall>vs. \<exists>d. dev_converter dev (dev_nodes dev) vs = Inr d"
    by simp
  have shift: "map (device_slice vals (dev # rest) c) [0..<length (dev # rest)] =
      (dev_name dev, dev_nodes dev, ?vs) # map (device_slice vals rest (c + ?n)) [0..<length rest]"
    by (simp add: map_upt_Suc device_slice_def add.assoc del: upt_Suc)
  show ?case
  proof (cases d)
    case None
    with d have step: "poll_devices vals (dev # rest) c st = poll_devices vals rest (c + ?n) ?st1"
      by (simp add: Let_def)
    from Cons.IH [OF rest, of "c + ?n" ?st1] show ?thesis
      unfolding step shift by simp
  next
    case (Some x)
    with d have step: "poll_devices vals (dev # rest) c st =
        poll_devices vals rest (c + ?n) (emit (Put x) ?st1)"
      by (simp add: Let_def)
    from Cons.IH [OF rest, of "c + ?n" "emit (Put x) ?st1"] show ?thesis
      unfolding step shift by simp
  qed
qed

lemma concat_slices:
  "concat (map (\<lambda>i. snd (snd (device_slice vals devs c i))) [0..<length devs]) =
   take (sum_list (map (\<lambda>d. length (dev_nodes d)) devs)) (drop c vals)"
proof (induction devs arbitrary: c)
  case Nil
  then show ?case by simp
next
  case (Cons dev rest)
  have "concat (map (\<lambda>i. snd (snd (device_slice vals (dev # rest) c i))) [0..<length (dev # rest)]) =
      take (length (dev_nodes dev)) (drop c vals) @
      concat (map (\<lambda>i. snd (snd (device_slice vals rest (c + length (dev_nodes dev)) i))) [0..<length rest])"
    by (simp add: map_upt_Suc device_slice_def add.assoc del: upt_Suc)
  also have "\<dots> = take (length (dev_nodes dev)) (drop c vals) @
      take (sum_list (map (\<lambda>d. length (dev_nodes d)) rest)) (drop (c + length (dev_nodes dev)) vals)"
    by (simp only: Cons.IH)
  also have "\<dots> = take (sum_list (map (\<lambda>d. length (dev_nodes d)) (dev # rest))) (drop c vals)"
    by (simp add: take_add add.commute)
  finally show ?case .
qed

lemma length_all_nodes: "length (all_nodes devs) = sum_list (map (\<lambda>d. length (dev_nodes d)) devs)"
  by (induction devs) (simp_all add: all_nodes_def)

text \<open>
  C9. When no node is bound, a poll reads nothing, logs \<^verbatim>\<open>'No nodes to poll'\<close> and returns
  without an error. When \<open>n > 0\<close> nodes are bound, the poll issues exactly one batched
  read, over the nodes of all devices in device order; if the read returns \<open>vals\<close> and no
  converter raises, the converter of the \<open>i\<close>-th device is called once, in device order,
  with the device's nodes and the slice of \<open>vals\<close> that starts at the sum of the node counts
  of the devices before it and is as long as the device's node count; when the server
  answers with one value per node the slices, put together in device order, are \<open>vals\<close>.
\<close>

theorem poll_nodes_batches:
  "(all_nodes (device_nodes st) = [] \<longrightarrow>
      poll_nodes cl st = (Inr (), emit (LogMsg ''No nodes to poll'') st) \<and>
      reads (trace (snd (poll_nodes cl st))) = reads (trace st) \<and>
      converts (trace (snd (poll_nodes cl st))) = converts (trace st)) \<and>
   (all_nodes (device_nodes st) \<noteq> [] \<and>
    read_attributes cl (all_nodes (device_nodes st)) = Inr vals \<and>
    (\<forall>dev \<in> set (device_nodes st). \<forall>vs. \<exists>d. dev_converter dev (dev_nodes dev) vs = Inr d) \<longrightarrow>
      fst (poll_nodes cl st) = Inr () \<and>
      reads (trace (snd (poll_nodes cl st))) = reads (trace st) @ [all_nodes (device_nodes st)] \<and>
      converts (trace (snd (poll_nodes cl st))) =
        converts (trace st) @
        map (device_slice vals (device_nodes st) 0) [0..<length (device_nodes st)] \<and>
      (length vals = length (all_nodes (device_nodes st)) \<longrightarrow>
         concat (map (\<lambda>i. snd (snd (device_slice vals (device_nodes st) 0 i)))
                   [0..<length (device_nodes st)]) = vals))"
proof -
  have none: "poll_nodes cl st = (Inr (), emit (LogMsg ''No nodes to poll'') st)"
    if "all_nodes (device_nodes st) = []"
    using that by (simp add: poll_nodes_def)
  have some: "fst (poll_nodes cl st) = Inr () \<and>
      reads (trace (snd (poll_nodes cl st))) = reads (trace st) @ [all_nodes (device_nodes st)] \<and>
      converts (trace (snd (poll_nodes cl st))) =
        converts (trace st) @
        map (device_slice vals (device_nodes st) 0) [0..<length (device_nodes st)]"
    if ne: "all_nodes (device_nodes st) \<noteq> []"
      and rd: "read_attributes cl (all_nodes (device_nodes st)) = Inr vals"
      and conv: "\<forall>dev \<in> set (device_nodes st). \<forall>vs. \<exists>d. dev_converter dev (dev_nodes dev) vs = Inr d"
  proof -
    let ?st1 = "emit (ReadAttributes (all_nodes (device_nodes st))) st"
    from ne rd have step: "poll_nodes cl st = poll_devices vals (device_nodes st) 0 ?st1"
      by (simp add: poll_nodes_def)
    from poll_devices_trace [OF conv, of vals 0 ?st1] show ?thesis
      unfolding step by simp
  qed
  have whole: "concat (map (\<lambda>i. snd (snd (device_slice vals (device_nodes st) 0 i)))
                   [0..<length (device_nodes st)]) = vals"
    if "length vals = length (all_nodes (device_nodes st))"
    using that concat_slices [of vals "device_nodes st" 0]
    by (simp add: length_all_nodes)
  from none some whole show ?thesis by simp
qed

theorem poll_nodes_batches_witness:
  "reads (trace (snd (poll_nodes example_client
      (example_connector\<lparr>device_nodes :=
         [example_device ''Room1'' [(''ns=2;i=11'', ''temperature'', Timeseries),
                                    (''ns=2;i=12'', ''humidity'', Timeseries)],
          example_device ''Room2'' [(''ns=2;i=21'', ''temperature'', Timeseries)]]\<rparr>)))) =
     [[''ns=2;i=11'', ''ns=2;i=12'', ''ns=2;i=21'']] \<and>
   converts (trace (snd (poll_nodes example_client
      (example_connector\<lparr>device_nodes :=
         [example_device ''Room1'' [(''ns=2;i=11'', ''temperature'', Timeseries),
                                    (''ns=2;i=12'', ''humidity'', Timeseries)],
          example_device ''Room2'' [(''ns=2;i=21'', ''temperature'', Timeseries)]]\<rparr>)))) =
     [(''Room1'', [(''ns=2;i=11'', ''temperature'', Timeseries),
                   (''ns=2;i=12'', ''humidity'', Timeseries)],
       [''value of ns=2;i=11'', ''value of ns=2;i=12'']),
      (''Room2'', [(''ns=2;i=21'', ''temperature'', Timeseries)], [''value of ns=2;i=21''])] \<and>
   reads (trace (snd (poll_nodes example_client example_connector))) = []"
proof -
  let ?d1 = "example_device ''Room1'' [(''ns=2;i=11'', ''temperature'', Timeseries),
                                      (''ns=2;i=12'', ''humidity'', Timeseries)]"
  let ?d2 = "example_device ''Room2'' [(''ns=2;i=21'', ''temperature'', Timeseries)]"
  let ?st = "example_connector\<lparr>device_nodes := [?d1, ?d2]\<rparr>"
  let ?vals = "[''value of ns=2;i=11'', ''value of ns=2;i=12'', ''value of ns=2;i=21'']"
  have nodes: "all_nodes (device_nodes ?st) = [''ns=2;i=11'', ''ns=2;i=12'', ''ns=2;i=21'']"
    by (simp add: all_nodes_def example_device_def)
  have ne: "all_nodes (device_nodes ?st) \<noteq> []"
    unfolding nodes by simp
  have rd: "read_attributes example_client (all_nodes (device_nodes ?st)) = Inr ?vals"
    unfolding nodes by (simp add: example_client_def)
  have conv: "\<forall>dev \<in> set (device_nodes ?st). \<forall>vs. \<exists>d. dev_converter dev (dev_nodes dev) vs = Inr d"
    by (simp add: example_device_def Device_def example_converter_def)
  have tr: "trace ?st = []" by (simp add: example_connector_def)
  have empty: "all_nodes (device_nodes example_connector) = []"
    by (simp add: all_nodes_def example_connector_def)
  from poll_nodes_batches [of ?st example_client ?vals] ne rd conv
  have "reads (trace (snd (poll_nodes example_client ?st))) =
          reads (trace ?st) @ [all_nodes (device_nodes ?st)]"
    and "converts (trace (snd (poll_nodes example_client ?st))) =
          converts (trace ?st) @ map (device_slice ?vals (device_nodes ?st) 0) [0..<length (device_nodes ?st)]"
    by blast+
  moreover from poll_nodes_batches [of example_connector example_client "[]"] empty
  have "reads (trace (snd (poll_nodes example_client example_connector))) =
          reads (trace example_connector)"
    by blast
  ultimately show ?thesis
    unfolding nodes tr
    by (simp add: device_slice_def example_device_def Device_def example_connector_def upt_rec)
qed

subsection \<open>Requests\<close>

lemma replies_append [simp]: "replies (xs @ ys) = replies xs @ replies ys"
  by (induction xs rule: replies.induct) simp_all

lemma writes_append [simp]: "writes (xs @ ys) = writes xs @ writes ys"
  by (induction xs rule: writes.induct) simp_all

text \<open>
  C8 is not what the handler does. For \<^verbatim>\<open>set\<close> the path is taken as all segments but the
  last, \<^verbatim>\<open>args_list[0:-1]\<close>, but the value as the text after \<^verbatim>\<open>=\<close> of the third segment,
  \<^verbatim>\<open>args_list[2]\<close>, and the reply is \<^verbatim>\<open>{method: result}\<close> with no code. On
  \<^verbatim>\<open>ns=2;s=Temp;value=5\<close> there is one write, of \<^verbatim>\<open>5\<close>, and one reply, which carries no
  code. On \<^verbatim>\<open>nsu=urn:x;ns=2;s=Temp;value=5\<close>, with four segments, the node addressed is
  \<^verbatim>\<open>nsu=urn:x;ns=2;s=Temp\<close> and the value written is \<^verbatim>\<open>Temp\<close>, the third segment's, not
  that of the last. And on \<^verbatim>\<open>ns=2;s=Temp;value=\<close> the device the handler reads off the
  parameters is empty, so the request is not taken for a \<^verbatim>\<open>set\<close> at all: nothing is
  written and no reply is sent.
\<close>

theorem set_rpc_value_and_reply:
  "trace (snd (server_side_rpc_handler example_client
      (example_set_request ''ns=2;s=Temp;value=5'') example_connector)) =
     [WriteValue ''ns=2;s=Temp'' ''5'',
      SendRpcReply ''5'' (Some 1) [(''opcua_set'', ReplyResult [])]] \<and>
   reply_code [(''opcua_set'', ReplyResult [])] = None \<and>
   trace (snd (server_side_rpc_handler example_client
      (example_set_request ''nsu=urn:x;ns=2;s=Temp;value=5'') example_connector)) =
     [WriteValue ''nsu=urn:x;ns=2;s=Temp'' ''Temp'',
      SendRpcReply ''5'' (Some 1) [(''opcua_set'', ReplyResult [])]] \<and>
   last (py_split '';'' ''nsu=urn:x;ns=2;s=Temp;value=5'') = ''value=5'' \<and>
   trace (snd (server_side_rpc_handler example_client
      (example_set_request ''ns=2;s=Temp;value='') example_connector)) = []"
  by (simp add: server_side_rpc_handler_def fill_data_def connector_rpc_def get_set_rpc_def
      priv_write_value_def nth_item_def key_def example_set_request_def example_client_def
      example_connector_def escaped_dot_def emit_def reply_code_def)

lemma priv_call_method_replies:
  "replies (trace (snd (priv_call_method cl p m args st))) = replies (trace st)"
  by (simp add: priv_call_method_def emit_def Let_def split: sum.splits)

lemma device_rpc_loop_replies:
  "data_id d = Some i \<Longrightarrow>
   fst (device_rpc_loop cl dev cdevice rpc_method m d table st) = Inr () \<and>
   map (\<lambda>r. reply_code (snd (snd r)))
     (replies (trace (snd (device_rpc_loop cl dev cdevice rpc_method m d table st)))) =
   map (\<lambda>r. reply_code (snd (snd r))) (replies (trace st)) @
   map (\<lambda>rpc. Some (ReplyCode (if fst rpc = m then 200 else 404))) table"
proof (induction table arbitrary: st)
  case Nil
  then show ?case by simp
next
  case (Cons rpc rest)
  show ?case
  proof (cases "fst rpc = m")
    case True
    obtain res st1 where c: "priv_call_method cl (dev_path dev) m
        (case data_params d of Some p \<Rightarrow> Some p | None \<Rightarrow> Some (ParamList (snd rpc))) st = (res, st1)"
      by (cases "priv_call_method cl (dev_path dev) m
        (case data_params d of Some p \<Rightarrow> Some p | None \<Rightarrow> Some (ParamList (snd rpc))) st")
    from priv_call_method_replies [of cl "dev_path dev" m _ st] c
    have r: "replies (trace st1) = replies (trace st)" by (metis snd_conv)
    from True c Cons.prems Cons.IH [OF Cons.prems] r show ?thesis
      by (simp add: Let_def reply_code_def dict2_def)
  next
    case False
    with Cons.prems Cons.IH [OF Cons.prems] show ?thesis
      by (simp add: reply_code_def)
  qed
qed

text \<open>
  C7 is not what the handler does. The reply is sent inside the loop over the device's
  RPC-method table, once for every entry: code 200 for an entry that matches and code 404
  for every entry that does not. So a request for \<^verbatim>\<open>calibrate\<close>, the second of two entries,
  gets a 404 and then a 200; a request for \<^verbatim>\<open>reset\<close> whose call raises gets code 200 with
  the error text inside the result (the task swallows the exception), then a 404; and a
  device with an empty table gets no reply at all.
\<close>

theorem device_rpc_replies_per_entry:
  "replies (trace (snd (server_side_rpc_handler example_client
      (example_method_request ''calibrate'') example_room_connector))) =
     [(''Room1'', Some 1,
       [(''error'', ReplyText ''calibrate - Method not found''), (''code'', ReplyCode 404)]),
      (''Room1'', Some 1,
       [(''calibrate'', ReplyResult [(''result'', ''done'')]), (''code'', ReplyCode 200)])] \<and>
   replies (trace (snd (server_side_rpc_handler
      (example_client\<lparr>call_method := (\<lambda>n m a. Inl (OtherException ''boom''))\<rparr>)
      (example_method_request ''reset'') example_room_connector))) =
     [(''Room1'', Some 1,
       [(''reset'', ReplyResult [(''error'', ''boom'')]), (''code'', ReplyCode 200)]),
      (''Room1'', Some 1,
       [(''error'', ReplyText ''reset - Method not found''), (''code'', ReplyCode 404)])] \<and>
   replies (trace (snd (server_side_rpc_handler example_client (example_method_request ''reset'')
      (example_connector\<lparr>device_nodes :=
         [(example_device ''Room1'' [])\<lparr>dev_config :=
            make_device_config (example_mapping\<lparr>rpc_methods := []\<rparr>) ''Room1''
              (InfoFirst ''default'')\<rparr>]\<rparr>)))) = []"
  by (simp add: server_side_rpc_handler_def fill_data_def connector_rpc_def example_method_request_def
      example_room_connector_def example_connector_def example_device_def Device_def
      make_device_config_def example_mapping_def device_rpc_def key_def priv_call_method_def
      unpack_def error_result_def example_client_def example_paths_def emit_def dict2_def Let_def)

subsection \<open>Errors while binding nodes\<close>

lemma unsubscribes_append [simp]: "unsubscribes (xs @ ys) = unsubscribes xs @ unsubscribes ys"
  by (induction xs rule: unsubscribes.induct) simp_all

lemma subscribes_append [simp]: "subscribes (xs @ ys) = subscribes xs @ subscribes ys"
  by (induction xs rule: subscribes.induct) simp_all



lemma reset_node_invalid: "node_valid (fst (snd (reset_node cl node st))) = Some False"
  by (simp add: reset_node_def Let_def split: sum.splits)

















subsection \<open>A binding that was reset\<close>

lemma subscribe_binding_invalid:
  "node_valid node = Some False \<Longrightarrow> subscribe_binding cl found_node node st = (Inr (), node, st)"
  by (simp add: subscribe_binding_def)

lemma resolve_binding_invalid:
  assumes "node_valid node = Some False"
      and "resolve_binding cl node st = (r, node1, st1)"
  shows "node_valid node1 = Some False \<and> node_sub_on node1 = node_sub_on node \<and>
         subscribes (trace st1) = subscribes (trace st) \<and> subscription st1 = subscription st"
  using assms
  by (auto simp: resolve_binding_def Let_def split: sum.splits if_splits prod.splits)

lemma load_node_stays_invalid:
  assumes "node_valid node = Some False"
      and "load_node cl sec node bound st = (r, node2, bound2, st2)"
  shows "node_valid node2 = Some False \<and> node_sub_on node2 = node_sub_on node \<and>
         subscribes (trace st2) = subscribes (trace st) \<and> subscription st2 = subscription st"
proof -
  obtain r0 node0 st0 where rb: "resolve_binding cl node st = (r0, node0, st0)"
    by (cases "resolve_binding cl node st") auto
  from resolve_binding_invalid [OF assms(1) rb]
  have p: "node_valid node0 = Some False" "node_sub_on node0 = node_sub_on node"
    "subscribes (trace st0) = subscribes (trace st)" "subscription st0 = subscription st"
    by simp_all
  have "\<exists>r1 b1. load_node_try cl sec node bound st = (r1, node0, b1, st0)"
    using rb p(1)
    by (cases r0) (auto simp: load_node_try_def subscribe_binding_invalid split: option.splits)
  then obtain r1 b1 where t: "load_node_try cl sec node bound st = (r1, node0, b1, st0)" by blast
  from t assms(2) p show ?thesis
    by (auto simp: load_node_def split: sum.splits if_splits)
qed

text \<open>
  C2 is not what the code does. A binding reset by error recovery has
  \<^verbatim>\<open>node['valid'] == False\<close>, and the block that subscribes and sets \<^verbatim>\<open>node['valid'] = True\<close>
  is entered only when \<^verbatim>\<open>node.get('valid')\<close> is \<^verbatim>\<open>None\<close>, or true with subscriptions
  disabled. On the example: the subscribed binding is reset (unsubscribed, invalid); the
  next \<^verbatim>\<open>_load_devices_nodes\<close> step resolves its node and binds it for polling, but leaves
  the binding invalid and unsubscribed and the connector as it was, whether the shared
  subscription exists or not: nothing is subscribed and no subscription is created.
\<close>

theorem reset_binding_not_revalidated:
  "reset_node example_client_down example_binding (example_connector\<lparr>subscription := Some 1\<rparr>) =
     (Inr (),
      example_binding\<lparr>node_valid := Some False, node_subscription := None, node_sub_on := False\<rparr>,
      example_connector\<lparr>subscription := Some 1, trace := [Unsubscribe (Some 7)]\<rparr>) \<and>
   load_node example_client Timeseries
     (example_binding\<lparr>node_valid := Some False, node_subscription := None, node_sub_on := False\<rparr>)
     [] (example_connector\<lparr>subscription := Some 1, trace := [Unsubscribe (Some 7)]\<rparr>) =
     (Inr (),
      example_binding\<lparr>node_valid := Some False, node_subscription := None, node_sub_on := False\<rparr>,
      [(''ns=2;i=11'', ''temperature'', Timeseries)],
      example_connector\<lparr>subscription := Some 1, trace := [Unsubscribe (Some 7)]\<rparr>) \<and>
   load_node example_client Timeseries
     (example_binding\<lparr>node_valid := Some False, node_subscription := None, node_sub_on := False\<rparr>)
     [] example_connector =
     (Inr (),
      example_binding\<lparr>node_valid := Some False, node_subscription := None, node_sub_on := False\<rparr>,
      [(''ns=2;i=11'', ''temperature'', Timeseries)], example_connector)"
  by (simp add: reset_node_def load_node_def load_node_try_def resolve_binding_def
      subscribe_binding_def path_last_def example_binding_def example_connector_def
      example_client_down_def example_client_def example_paths_def emit_def Let_def)

subsection \<open>Tearing down the devices a scan does not find\<close>





























subsection \<open>Device names\<close>

lemma example_nodes:
  "find_nodes example_client (deviceNodePattern example_mapping) None [] =
      Inr [[''0:Objects'', ''2:Room1''], [''0:Objects'', ''3:Room1'']]"
  by (simp add: find_nodes_def example_mapping_def escaped_dot_def py_lower_def lower_char_def
        example_client_def example_children_def example_names_def child_matches_literal
        qualified_name_def py_str_nat_small digit_char_def)

lemma example_names_found:
  "get_device_info_by_pattern example_client (deviceNameExpression example_mapping) st =
     (Inr [''Room''], st)"
  by (simp add: get_device_info_by_pattern_def example_mapping_def)

lemma second_scan_adds_nothing:
  "map dev_name (device_nodes st) = [''Room'', ''Room''] \<Longrightarrow>
   config_mapping st = [example_mapping] \<Longrightarrow>
   device_nodes (snd (create_new_devices example_client st)) = device_nodes st"
  by (simp add: create_new_devices_def example_nodes example_names_found reset_nodes_def)

text \<open>
  C3 is not what the code does for the uniqueness of names. The example template
  matches two nodes (\<open>Room1\<close> of namespaces 2 and 3) and names its device \<^verbatim>\<open>Room\<close>; the first
  scan checks the name only against the devices known before the scan and then makes one
  device for each node, so the list holds two devices called \<^verbatim>\<open>Room\<close>. The second half of
  the claim holds on the example: a second scan of the same server leaves the device list
  as it is.
\<close>

theorem create_new_devices_duplicate_names:
  "map (\<lambda>d. (dev_name d, dev_path d))
     (device_nodes (snd (create_new_devices example_client example_connector))) =
     [(''Room'', [''0:Objects'', ''2:Room1'']), (''Room'', [''0:Objects'', ''3:Room1''])] \<and>
   \<not> distinct (map dev_name
     (device_nodes (snd (create_new_devices example_client example_connector)))) \<and>
   device_nodes (snd (create_new_devices example_client
       (snd (create_new_devices example_client example_connector)))) =
     device_nodes (snd (create_new_devices example_client example_connector))"
proof -
  let ?s1 = "snd (create_new_devices example_client example_connector)"
  have first: "map (\<lambda>d. (dev_name d, dev_path d)) (device_nodes ?s1) =
     [(''Room'', [''0:Objects'', ''2:Room1'']), (''Room'', [''0:Objects'', ''3:Room1''])]"
    and cm: "config_mapping ?s1 = [example_mapping]"
    using example_nodes
    by (simp_all add: create_new_devices_def example_connector_def
        get_device_info_by_pattern_def load_converter_def DEFAULT_UPLINK_CONVERTER_def
        example_mapping_def Device_def emit_def Let_def)
  have "map dev_name (device_nodes ?s1) =
      map fst (map (\<lambda>d. (dev_name d, dev_path d)) (device_nodes ?s1))"
    by (simp add: comp_def)
  with first have names: "map dev_name (device_nodes ?s1) = [''Room'', ''Room'']" by simp
  from second_scan_adds_nothing [OF names cm] first names show ?thesis by simp
qed

end
